theory Spec2Isabelle
  imports Complex_Main "HOL-Library.Word" "HOL-Library.Sublist"
begin

unbundle bit_operations_syntax

section \<open>Data model of \<^verbatim>\<open>driver.py\<close>\<close>

text \<open>
  The driver is an asynchronous Python program: three methods of \<^verbatim>\<open>LwM2MClient\<close>
  (\<^verbatim>\<open>register\<close>, \<^verbatim>\<open>execute_command\<close>, \<^verbatim>\<open>get_device_info\<close>) and the HTTP handlers
  calling them. Its only effects are two calls into the CoAP library: creating a client
  context and sending a request on a context. Both may raise, and so may the library's
  constructor of a message, which parses the URI it is given. The model threads an
  explicit world through every method; the world records each context creation and each
  request with its outcome, and an environment decides the outcomes.
\<close>

type_synonym byte = "8 word"

text \<open>A decoded Python \<^verbatim>\<open>str\<close>: its Unicode code points.\<close>

type_synonym ustr = "nat list"

text \<open>
  Python exceptions, all subclasses of \<^verbatim>\<open>Exception\<close>: the one the driver raises itself
  (with its message), those a builtin operation raises on a value of the wrong type or on
  a missing key, and whatever the CoAP or HTTP library raises. The cancellation of a task,
  which is no \<^verbatim>\<open>Exception\<close>, is outside the model.
\<close>

datatype exn =
    Exception string
  | TypeError
  | AttributeError
  | KeyError
  | LibraryError string

text \<open>
  A value parsed from a JSON body. An object is the list of its items. A number stands
  for a Python \<^verbatim>\<open>int\<close> or \<^verbatim>\<open>float\<close>; the driver only ever tests it for truth.
\<close>

datatype json =
    JNull
  | JBool bool
  | JNum real
  | JStr string
  | JList "json list"
  | JObj "(string \<times> json) list"

datatype coap_method = GET | POST

text \<open>
  The arguments of \<^verbatim>\<open>Message(code=..., uri=..., uri_query=..., payload=...)\<close>, and the
  message built from them; a message built without \<^verbatim>\<open>uri_query\<close> or \<^verbatim>\<open>payload\<close> has
  none.
\<close>

record message =
  code :: coap_method
  uri :: string
  uri_query :: "string list"
  payload :: "byte list"

text \<open>
  A response of the server: the CoAP code (class * 32 + detail, so 2.05 is 69 and 4.04
  is 132), the name the library gives that code, and the payload.
\<close>

record response =
  resp_code :: nat
  resp_code_name :: string
  resp_payload :: "byte list"

text \<open>Contexts are identified by the order of their creation.\<close>

datatype event =
    CreateContext int "exn + nat"
  | Request nat message "exn + response"

record world =
  trace :: "event list"
  next_ctx :: nat

text \<open>
  The environment: whether the library's context creation on a port raises, and what a
  request on a context yields, each at a given moment (the number of context creations
  and requests made so far); and whether the library's constructor raises on the
  arguments of a message, as it does on a URI it cannot parse.
\<close>

record env =
  ctx_outcome :: "nat \<Rightarrow> int \<Rightarrow> exn option"
  message_outcome :: "message \<Rightarrow> exn option"
  net_outcome :: "nat \<Rightarrow> nat \<Rightarrow> message \<Rightarrow> exn + response"

definition now :: "world \<Rightarrow> nat" where
  "now w = length (trace w)"

text \<open>\<^verbatim>\<open>Context.create_client_context(bind=("0.0.0.0", port))\<close>\<close>

definition create_client_context :: "env \<Rightarrow> int \<Rightarrow> world \<Rightarrow> (exn + nat) \<times> world" where
  "create_client_context E port w =
     (case ctx_outcome E (now w) port of
        Some e \<Rightarrow> (Inl e, w\<lparr>trace := trace w @ [CreateContext port (Inl e)]\<rparr>)
      | None \<Rightarrow>
          (Inr (next_ctx w),
           \<lparr>trace = trace w @ [CreateContext port (Inr (next_ctx w))],
            next_ctx = Suc (next_ctx w)\<rparr>))"

text \<open>\<^verbatim>\<open>Message(...)\<close>: the message, unless the constructor raises. It sends nothing.\<close>

definition Message :: "env \<Rightarrow> message \<Rightarrow> exn + message" where
  "Message E args = (case message_outcome E args of Some e \<Rightarrow> Inl e | None \<Rightarrow> Inr args)"

text \<open>\<^verbatim>\<open>await ctx.request(req).response\<close>\<close>

definition request :: "env \<Rightarrow> nat \<Rightarrow> message \<Rightarrow> world \<Rightarrow> (exn + response) \<times> world" where
  "request E ctx req w =
     (let r = net_outcome E (now w) ctx req
      in (r, w\<lparr>trace := trace w @ [Request ctx req r]\<rparr>))"

subsection \<open>The client\<close>

record LwM2MClient =
  server_ip :: string
  server_port :: int
  epname :: string
  coap_port :: int

text \<open>Python's \<^verbatim>\<open>str\<close> of an \<^verbatim>\<open>int\<close>, as an f-string renders the port.\<close>

fun digits :: "nat \<Rightarrow> string" where
  "digits n =
     (if n < 10 then [''0123456789'' ! n]
      else digits (n div 10) @ [''0123456789'' ! (n mod 10)])"

declare digits.simps [simp del]

definition str_int :: "int \<Rightarrow> string" where
  "str_int i = (if i < 0 then CHR ''-'' # digits (nat (- i)) else digits (nat i))"

text \<open>\<^verbatim>\<open>f"coap://{self.server_ip}:{self.server_port}{path}"\<close>\<close>

definition coap_uri :: "LwM2MClient \<Rightarrow> string \<Rightarrow> string" where
  "coap_uri self path =
     ''coap://'' @ server_ip self @ '':'' @ str_int (server_port self) @ path"

definition get_context :: "env \<Rightarrow> LwM2MClient \<Rightarrow> world \<Rightarrow> (exn + nat) \<times> world" where
  "get_context E self w = create_client_context E (coap_port self) w"

text \<open>
  Sequencing of statements that may raise: the first exception ends the method, with the
  world as it is at that point.
\<close>

type_synonym 'a io = "world \<Rightarrow> (exn + 'a) \<times> world"

definition io_return :: "'a \<Rightarrow> 'a io" where
  "io_return x w = (Inr x, w)"

definition io_lift :: "exn + 'a \<Rightarrow> 'a io" where
  "io_lift r w = (r, w)"

definition io_bind :: "'a io \<Rightarrow> ('a \<Rightarrow> 'b io) \<Rightarrow> 'b io" where
  "io_bind m f w =
     (case m w of
        (Inl e, w1) \<Rightarrow> (Inl e, w1)
      | (Inr x, w1) \<Rightarrow> f x w1)"

subsection \<open>Builtin operations the driver applies to parsed JSON\<close>

text \<open>\<^verbatim>\<open>needle in haystack\<close> on two strings: a substring test.\<close>

fun str_contains :: "string \<Rightarrow> string \<Rightarrow> bool" where
  "str_contains needle [] = (needle = [])"
| "str_contains needle (c # cs) =
     (take (length needle) (c # cs) = needle \<or> str_contains needle cs)"

text \<open>
  \<^verbatim>\<open>key in params\<close>: a key of a dict, an element of a list, a substring of a string;
  \<^verbatim>\<open>None\<close>, a boolean and a number are not iterable.
\<close>

definition py_in :: "string \<Rightarrow> json \<Rightarrow> exn + bool" where
  "py_in key params =
     (case params of
        JObj items \<Rightarrow> Inr (key \<in> set (map fst items))
      | JList xs \<Rightarrow> Inr (JStr key \<in> set xs)
      | JStr s \<Rightarrow> Inr (str_contains key s)
      | _ \<Rightarrow> Inl TypeError)"

text \<open>\<^verbatim>\<open>params[key]\<close> with a string key: only a dict can be indexed so.\<close>

definition subscript :: "json \<Rightarrow> string \<Rightarrow> exn + json" where
  "subscript params key =
     (case params of
        JObj items \<Rightarrow> (case map_of items key of None \<Rightarrow> Inl KeyError | Some v \<Rightarrow> Inr v)
      | _ \<Rightarrow> Inl TypeError)"

text \<open>\<^verbatim>\<open>data.get(key)\<close>: a method of dicts alone; a missing key gives \<^verbatim>\<open>None\<close>.\<close>

definition py_get :: "json \<Rightarrow> string \<Rightarrow> exn + json" where
  "py_get data key =
     (case data of
        JObj items \<Rightarrow> (case map_of items key of None \<Rightarrow> Inr JNull | Some v \<Rightarrow> Inr v)
      | _ \<Rightarrow> Inl AttributeError)"

text \<open>Truth of a value, as \<^verbatim>\<open>not command\<close> tests it.\<close>

fun truthy :: "json \<Rightarrow> bool" where
  "truthy JNull = False"
| "truthy (JBool b) = b"
| "truthy (JNum x) = (x \<noteq> 0)"
| "truthy (JStr s) = (s \<noteq> [])"
| "truthy (JList xs) = (xs \<noteq> [])"
| "truthy (JObj items) = (items \<noteq> [])"

text \<open>\<^verbatim>\<open>sep.join(xs)\<close>: every item must be a string.\<close>

fun str_items :: "json list \<Rightarrow> exn + string list" where
  "str_items [] = Inr []"
| "str_items (JStr s # xs) =
     (case str_items xs of Inl e \<Rightarrow> Inl e | Inr ss \<Rightarrow> Inr (s # ss))"
| "str_items (_ # xs) = Inl TypeError"

fun join :: "string \<Rightarrow> string list \<Rightarrow> string" where
  "join sep [] = []"
| "join sep [s] = s"
| "join sep (s # t # ss) = s @ sep @ join sep (t # ss)"

definition py_join :: "string \<Rightarrow> json list \<Rightarrow> exn + string" where
  "py_join sep xs = (case str_items xs of Inl e \<Rightarrow> Inl e | Inr ss \<Rightarrow> Inr (join sep ss))"

subsection \<open>\<^verbatim>\<open>bytes.decode(errors="ignore")\<close>\<close>

text \<open>
  The default encoding is UTF-8. The decoder reads one well-formed sequence at a time.
  At an ill-formed one the \<^verbatim>\<open>ignore\<close> handler skips the offending bytes and decoding goes
  on: one byte for an invalid start byte, the bytes before the first wrong continuation
  byte for an invalid continuation, and all that is left for a sequence cut off by
  the end of the data. Nothing is put in their place.
\<close>

definition is_continuation :: "byte \<Rightarrow> bool" where
  "is_continuation b = (0x80 \<le> b \<and> b < 0xC0)"

definition cp2 :: "byte \<Rightarrow> byte \<Rightarrow> nat" where
  "cp2 b1 b2 = unat (b1 AND 0x1F) * 64 + unat (b2 AND 0x3F)"

definition cp3 :: "byte \<Rightarrow> byte \<Rightarrow> byte \<Rightarrow> nat" where
  "cp3 b1 b2 b3 = unat (b1 AND 0x0F) * 4096 + unat (b2 AND 0x3F) * 64 + unat (b3 AND 0x3F)"

definition cp4 :: "byte \<Rightarrow> byte \<Rightarrow> byte \<Rightarrow> byte \<Rightarrow> nat" where
  "cp4 b1 b2 b3 b4 =
     unat (b1 AND 0x07) * 262144 + unat (b2 AND 0x3F) * 4096
       + unat (b3 AND 0x3F) * 64 + unat (b4 AND 0x3F)"

text \<open>
  The second byte of a three-byte sequence must not give an overlong form (lead E0) or a
  surrogate (lead ED); that of a four-byte sequence must not give an overlong form
  (lead F0) or a code point above 10FFFF (lead F4).
\<close>

definition bad_second3 :: "byte \<Rightarrow> byte \<Rightarrow> bool" where
  "bad_second3 b1 b2 =
     (\<not> is_continuation b2 \<or> (if b2 < 0xA0 then b1 = 0xE0 else b1 = 0xED))"

definition bad_second4 :: "byte \<Rightarrow> byte \<Rightarrow> bool" where
  "bad_second4 b1 b2 =
     (\<not> is_continuation b2 \<or> (if b2 < 0x90 then b1 = 0xF0 else b1 = 0xF4))"

fun utf8_decode_ignore :: "byte list \<Rightarrow> ustr" where
  "utf8_decode_ignore [] = []"
| "utf8_decode_ignore (b1 # bs) =
     (if b1 < 0x80 then unat b1 # utf8_decode_ignore bs
      else if b1 < 0xC2 then utf8_decode_ignore bs
      else if b1 < 0xE0 then
        (case bs of
           [] \<Rightarrow> []
         | b2 # r2 \<Rightarrow>
             if \<not> is_continuation b2 then utf8_decode_ignore bs
             else cp2 b1 b2 # utf8_decode_ignore r2)
      else if b1 < 0xF0 then
        (case bs of
           [] \<Rightarrow> []
         | b2 # r2 \<Rightarrow>
             if bad_second3 b1 b2 then utf8_decode_ignore bs
             else
               (case r2 of
                  [] \<Rightarrow> []
                | b3 # r3 \<Rightarrow>
                    if \<not> is_continuation b3 then utf8_decode_ignore r2
                    else cp3 b1 b2 b3 # utf8_decode_ignore r3))
      else if b1 < 0xF5 then
        (case bs of
           [] \<Rightarrow> []
         | b2 # r2 \<Rightarrow>
             if bad_second4 b1 b2 then utf8_decode_ignore bs
             else
               (case r2 of
                  [] \<Rightarrow> []
                | b3 # r3 \<Rightarrow>
                    if \<not> is_continuation b3 then utf8_decode_ignore r2
                    else
                      (case r3 of
                         [] \<Rightarrow> []
                       | b4 # r4 \<Rightarrow>
                           if \<not> is_continuation b4 then utf8_decode_ignore r3
                           else cp4 b1 b2 b3 b4 # utf8_decode_ignore r4)))
      else utf8_decode_ignore bs)"



subsection \<open>\<^verbatim>\<open>register\<close>\<close>

definition LWM2M_REG_PATH :: string where
  "LWM2M_REG_PATH = ''/rd''"

text \<open>
  The query list: three fixed items, then \<^verbatim>\<open>lwm2m=...\<close> when \<^verbatim>\<open>"objects" in params\<close>
  and \<^verbatim>\<open>params["objects"]\<close> is a list. The conjunction evaluates its second operand only
  when the first is true.
\<close>

definition register_query :: "LwM2MClient \<Rightarrow> json \<Rightarrow> exn + string list" where
  "register_query self params =
     (let query = [''ep='' @ epname self, ''lt=86400'', ''b=U'']
      in case py_in ''objects'' params of
           Inl e \<Rightarrow> Inl e
         | Inr present \<Rightarrow>
             if \<not> present then Inr query
             else
               (case subscript params ''objects'' of
                  Inl e \<Rightarrow> Inl e
                | Inr (JList objs) \<Rightarrow>
                    (case py_join '','' objs of
                       Inl e \<Rightarrow> Inl e
                     | Inr objstr \<Rightarrow> Inr (query @ [''lwm2m='' @ objstr]))
                | Inr _ \<Rightarrow> Inr query))"

definition register ::
  "env \<Rightarrow> LwM2MClient \<Rightarrow> json \<Rightarrow> response io" where
  "register E self params =
     io_bind (get_context E self) (\<lambda>ctx.
     io_bind (io_lift (register_query self params)) (\<lambda>query.
     io_bind
       (io_lift
          (Message E
             \<lparr>code = POST, uri = coap_uri self LWM2M_REG_PATH, uri_query = query,
              payload = []\<rparr>)) (\<lambda>req.
     request E ctx req)))"

subsection \<open>\<^verbatim>\<open>execute_command\<close>\<close>

text \<open>
  The context is created first; the chain of comparisons follows, then the message is
  built and sent. The argument is whatever the handler found under \<^verbatim>\<open>"command"\<close>,
  so any JSON value.
\<close>

definition command_path :: "json \<Rightarrow> exn + string" where
  "command_path command =
     (if command = JStr ''reboot'' then Inr ''/3/0/4''
      else if command = JStr ''factory_reset'' then Inr ''/3/0/5''
      else if command = JStr ''firmware_update'' then Inr ''/5/0/2''
      else Inl (Exception ''Unknown command''))"

definition execute_command ::
  "env \<Rightarrow> LwM2MClient \<Rightarrow> json \<Rightarrow> response io" where
  "execute_command E self command =
     io_bind (get_context E self) (\<lambda>ctx.
     io_bind (io_lift (command_path command)) (\<lambda>path.
     io_bind
       (io_lift
          (Message E
             \<lparr>code = POST, uri = coap_uri self path, uri_query = [], payload = []\<rparr>)) (\<lambda>req.
     request E ctx req)))"

text \<open>
  The Command Table as the specification words it. The source has no such table: it has
  the chain of comparisons in \<open>command_path\<close>.
\<close>

definition Command_Table :: "(string \<times> string) list" where
  "Command_Table =
     [(''reboot'', ''/3/0/4''), (''factory_reset'', ''/3/0/5''), (''firmware_update'', ''/5/0/2'')]"

subsection \<open>\<^verbatim>\<open>get_device_info\<close>\<close>

definition LWM2M_OBJECTS :: "(string \<times> string) list" where
  "LWM2M_OBJECTS =
     [(''device_identity'', ''/3/0''),
      (''power'', ''/3/0/7''),
      (''memory_free'', ''/3/0/10''),
      (''memory_total'', ''/3/0/9''),
      (''network'', ''/4/0''),
      (''firmware_state'', ''/5/0/3''),
      (''firmware_result'', ''/5/0/5''),
      (''location'', ''/6/0'')]"

text \<open>\<^verbatim>\<open>LWM2M_OBJECTS[name]\<close>\<close>

definition lookup_object :: "string \<Rightarrow> exn + string" where
  "lookup_object name =
     (case map_of LWM2M_OBJECTS name of None \<Rightarrow> Inl KeyError | Some path \<Rightarrow> Inr path)"

text \<open>The arguments of the message \<^verbatim>\<open>safe_get\<close> builds for a path.\<close>

definition get_request :: "LwM2MClient \<Rightarrow> string \<Rightarrow> message" where
  "get_request self path =
     \<lparr>code = GET, uri = coap_uri self path, uri_query = [], payload = []\<rparr>"

text \<open>
  \<^verbatim>\<open>safe_get\<close>: building the message and sending it are both inside the \<^verbatim>\<open>try\<close>. Whatever
  either raises is caught and gives \<^verbatim>\<open>None\<close>; a response, whatever its code, gives its
  decoded payload.
\<close>

definition safe_get :: "env \<Rightarrow> LwM2MClient \<Rightarrow> nat \<Rightarrow> string \<Rightarrow> ustr option io" where
  "safe_get E self ctx path w =
     (case
        io_bind (io_lift (Message E (get_request self path))) (\<lambda>req.
        io_bind (request E ctx req) (\<lambda>resp.
        io_return (utf8_decode_ignore (resp_payload resp)))) w
      of
        (Inl e, w1) \<Rightarrow> (Inr None, w1)
      | (Inr s, w1) \<Rightarrow> (Inr (Some s), w1))"

type_synonym device_info = "(string \<times> ustr option) list"

definition get_device_info :: "env \<Rightarrow> LwM2MClient \<Rightarrow> device_info io" where
  "get_device_info E self =
     io_bind (get_context E self) (\<lambda>ctx.
     io_bind (io_lift (lookup_object ''device_identity'')) (\<lambda>devobj.
     io_bind (io_lift (lookup_object ''memory_free'')) (\<lambda>mem_obj.
     io_bind (io_lift (lookup_object ''memory_total'')) (\<lambda>mem_total_obj.
     io_bind (io_lift (lookup_object ''network'')) (\<lambda>net_obj.
     io_bind (io_lift (lookup_object ''firmware_state'')) (\<lambda>fw_state_obj.
     io_bind (io_lift (lookup_object ''firmware_result'')) (\<lambda>fw_result_obj.
     io_bind (io_lift (lookup_object ''location'')) (\<lambda>location_obj.
     io_bind (safe_get E self ctx devobj) (\<lambda>identity.
     io_bind (safe_get E self ctx mem_obj) (\<lambda>memory_free.
     io_bind (safe_get E self ctx mem_total_obj) (\<lambda>memory_total.
     io_bind (safe_get E self ctx net_obj) (\<lambda>network.
     io_bind (safe_get E self ctx fw_state_obj) (\<lambda>fw_state.
     io_bind (safe_get E self ctx fw_result_obj) (\<lambda>fw_result.
     io_bind (safe_get E self ctx location_obj) (\<lambda>location.
     io_return
       [(''identity'', identity),
        (''memory_free'', memory_free),
        (''memory_total'', memory_total),
        (''network'', network),
        (''firmware_state'', fw_state),
        (''firmware_update_result'', fw_result),
        (''location'', location)])))))))))))))))"

subsection \<open>HTTP handlers\<close>

text \<open>
  A value of a JSON response body: a string, a decoded payload, \<^verbatim>\<open>null\<close>, or \<^verbatim>\<open>str(e)\<close>
  of a caught exception.
\<close>

datatype jfield = FStr string | FText ustr | FNull | FErr exn

text \<open>\<^verbatim>\<open>web.json_response(body, status=...)\<close>; the status is 200 when not given.\<close>

datatype http_response = JsonResponse nat "(string \<times> jfield) list"

text \<open>
  \<^verbatim>\<open>cmd_handler\<close>: the whole body, from parsing the request on, is inside one \<^verbatim>\<open>try\<close>. The
  argument \<open>body\<close> is what \<^verbatim>\<open>await request.json()\<close> does: raise, or return the
  parsed value.
\<close>

definition cmd_handler ::
  "env \<Rightarrow> LwM2MClient \<Rightarrow> exn + json \<Rightarrow> world \<Rightarrow> http_response \<times> world" where
  "cmd_handler E lwm2m_client body w =
     (case
        io_bind (io_lift body) (\<lambda>data.
        io_bind (io_lift (py_get data ''command'')) (\<lambda>command.
          if \<not> truthy command then
            io_return (JsonResponse 400 [(''error'', FStr ''Missing command parameter'')])
          else
            io_bind (execute_command E lwm2m_client command) (\<lambda>resp.
            io_return
              (JsonResponse 200
                 [(''result'', FStr ''executed''),
                  (''code'', FStr (resp_code_name resp)),
                  (''payload'', FText (utf8_decode_ignore (resp_payload resp)))])))) w
      of
        (Inl e, w1) \<Rightarrow> (JsonResponse 500 [(''error'', FErr e)], w1)
      | (Inr r, w1) \<Rightarrow> (r, w1))"

definition info_body :: "device_info \<Rightarrow> (string \<times> jfield) list" where
  "info_body info =
     map (\<lambda>(name, v). (name, case v of None \<Rightarrow> FNull | Some s \<Rightarrow> FText s)) info"

definition info_handler :: "env \<Rightarrow> LwM2MClient \<Rightarrow> world \<Rightarrow> http_response \<times> world" where
  "info_handler E lwm2m_client w =
     (case get_device_info E lwm2m_client w of
        (Inl e, w1) \<Rightarrow> (JsonResponse 500 [(''error'', FErr e)], w1)
      | (Inr info, w1) \<Rightarrow> (JsonResponse 200 (info_body info), w1))"

subsection \<open>Observing a run\<close>

text \<open>The library calls made between two worlds, the later reached from the earlier.\<close>

definition since :: "world \<Rightarrow> world \<Rightarrow> event list" where
  "since w w' = drop (now w) (trace w')"

text \<open>The requests among some events, each with the context it was sent on.\<close>

fun requests :: "event list \<Rightarrow> (nat \<times> message) list" where
  "requests [] = []"
| "requests (CreateContext port r # es) = requests es"
| "requests (Request ctx req r # es) = (ctx, req) # requests es"

text \<open>The context creations among some events: the port bound and the outcome.\<close>

fun creations :: "event list \<Rightarrow> (int \<times> (exn + nat)) list" where
  "creations [] = []"
| "creations (CreateContext port r # es) = (port, r) # creations es"
| "creations (Request ctx req r # es) = creations es"

text \<open>An event is a request sent on context \<open>c\<close>.\<close>

fun request_on :: "nat \<Rightarrow> event \<Rightarrow> bool" where
  "request_on c (CreateContext port r) = False"
| "request_on c (Request c' req r) = (c' = c)"

text \<open>What the library answers to a context creation at the moment of world \<open>w\<close>.\<close>

definition granted :: "env \<Rightarrow> LwM2MClient \<Rightarrow> world \<Rightarrow> bool" where
  "granted E self w = (ctx_outcome E (now w) (coap_port self) = None)"

text \<open>The library builds the message: its constructor does not raise.\<close>

definition accepted :: "env \<Rightarrow> message \<Rightarrow> bool" where
  "accepted E m = (message_outcome E m = None)"

text \<open>
  One guarded read on context \<open>c\<close> at moment \<open>t\<close>: what the constructor raises, or else
  what the request yields.
\<close>

definition read_at :: "env \<Rightarrow> nat \<Rightarrow> nat \<Rightarrow> message \<Rightarrow> exn + response" where
  "read_at E c t m =
     (case message_outcome E m of Some e \<Rightarrow> Inl e | None \<Rightarrow> net_outcome E t c m)"

text \<open>What \<^verbatim>\<open>safe_get\<close> makes of such an outcome.\<close>

definition field_of :: "exn + response \<Rightarrow> ustr option" where
  "field_of r =
     (case r of Inl e \<Rightarrow> None | Inr resp \<Rightarrow> Some (utf8_decode_ignore (resp_payload resp)))"

text \<open>
  Guarded reads of some messages in turn, on context \<open>c\<close> from moment \<open>t\<close>: their
  outcomes, and the requests they leave in the trace. Only a message that is built is
  sent, and only a request that is sent takes a moment.
\<close>

fun outcomes_from :: "env \<Rightarrow> nat \<Rightarrow> nat \<Rightarrow> message list \<Rightarrow> (exn + response) list" where
  "outcomes_from E c t [] = []"
| "outcomes_from E c t (m # ms) =
     read_at E c t m # outcomes_from E c (if accepted E m then Suc t else t) ms"

fun sent_from :: "env \<Rightarrow> nat \<Rightarrow> nat \<Rightarrow> message list \<Rightarrow> event list" where
  "sent_from E c t [] = []"
| "sent_from E c t (m # ms) =
     (if accepted E m then Request c m (net_outcome E t c m) # sent_from E c (Suc t) ms
      else sent_from E c t ms)"

text \<open>\<^verbatim>\<open>safe_get\<close> for some paths in turn: the values and the world they leave.\<close>

fun safe_gets ::
  "env \<Rightarrow> LwM2MClient \<Rightarrow> nat \<Rightarrow> string list \<Rightarrow> world \<Rightarrow> ustr option list \<times> world" where
  "safe_gets E self c [] w = ([], w)"
| "safe_gets E self c (path # paths) w =
     ((case fst (safe_get E self c path w) of Inl e \<Rightarrow> None | Inr v \<Rightarrow> v)
        # fst (safe_gets E self c paths (snd (safe_get E self c path w))),
      snd (safe_gets E self c paths (snd (safe_get E self c path w))))"

text \<open>
  For stating what \<^verbatim>\<open>get_device_info\<close> does: the keys of the snapshot it returns and the
  paths it reads for them, in the order of the source, and the outcomes of those reads
  when the method starts in world \<open>w\<close> and is granted its context.
\<close>

definition field_names :: "string list" where
  "field_names =
     [''identity'', ''memory_free'', ''memory_total'', ''network'', ''firmware_state'',
      ''firmware_update_result'', ''location'']"

definition read_paths :: "string list" where
  "read_paths = [''/3/0'', ''/3/0/10'', ''/3/0/9'', ''/4/0'', ''/5/0/3'', ''/5/0/5'', ''/6/0'']"

definition read_outcomes :: "env \<Rightarrow> LwM2MClient \<Rightarrow> world \<Rightarrow> (exn + response) list" where
  "read_outcomes E self w =
     outcomes_from E (next_ctx w) (Suc (now w)) (map (get_request self) read_paths)"

text \<open>
  Every context a world's trace mentions was created before: its number is below the
  next one to be given out.
\<close>

fun event_ctx_below :: "nat \<Rightarrow> event \<Rightarrow> bool" where
  "event_ctx_below n (CreateContext port (Inl e)) = True"
| "event_ctx_below n (CreateContext port (Inr c)) = (c < n)"
| "event_ctx_below n (Request c req r) = (c < n)"

definition wf_world :: "world \<Rightarrow> bool" where
  "wf_world w = list_all (event_ctx_below (next_ctx w)) (trace w)"

text \<open>The three methods as calls, and a run of calls one after the other.\<close>

datatype call = Register json | ExecuteCommand json | GetDeviceInfo

fun run_call :: "env \<Rightarrow> LwM2MClient \<Rightarrow> call \<Rightarrow> world \<Rightarrow> world" where
  "run_call E self (Register params) w = snd (register E self params w)"
| "run_call E self (ExecuteCommand command) w = snd (execute_command E self command w)"
| "run_call E self GetDeviceInfo w = snd (get_device_info E self w)"

fun run_calls :: "env \<Rightarrow> LwM2MClient \<Rightarrow> call list \<Rightarrow> world \<Rightarrow> world" where
  "run_calls E self [] w = w"
| "run_calls E self (c # cs) w = run_calls E self cs (run_call E self c w)"

subsection \<open>Concrete clients, worlds and environments\<close>

text \<open>The client of the module, with the defaults of the environment variables.\<close>

definition lwm2m_client0 :: LwM2MClient where
  "lwm2m_client0 =
     \<lparr>server_ip = ''127.0.0.1'', server_port = 5683, epname = ''raspi5'', coap_port = 56830\<rparr>"

definition world0 :: world where
  "world0 = \<lparr>trace = [], next_ctx = 0\<rparr>"

text \<open>A 2.05 response with payload \<^verbatim>\<open>ok\<close>, and a 4.04 response with no payload.\<close>

definition content_ok :: response where
  "content_ok = \<lparr>resp_code = 69, resp_code_name = ''CONTENT'', resp_payload = [0x6F, 0x6B]\<rparr>"

definition not_found :: response where
  "not_found = \<lparr>resp_code = 132, resp_code_name = ''NOT_FOUND'', resp_payload = []\<rparr>"

text \<open>Everything works; the payload of an answer is the digit of its moment.\<close>

definition env_up :: env where
  "env_up =
     \<lparr>ctx_outcome = (\<lambda>t port. None),
      message_outcome = (\<lambda>m. None),
      net_outcome = (\<lambda>t ctx req. Inr (content_ok\<lparr>resp_payload := [0x30 + of_nat t]\<rparr>))\<rparr>"

text \<open>The port cannot be bound.\<close>

definition env_bind_fails :: env where
  "env_bind_fails =
     \<lparr>ctx_outcome = (\<lambda>t port. Some (LibraryError ''address already in use'')),
      message_outcome = (\<lambda>m. None),
      net_outcome = (\<lambda>t ctx req. Inr content_ok)\<rparr>"

text \<open>The server never answers.\<close>

definition env_silent :: env where
  "env_silent =
     \<lparr>ctx_outcome = (\<lambda>t port. None),
      message_outcome = (\<lambda>m. None),
      net_outcome = (\<lambda>t ctx req. Inl (LibraryError ''timeout''))\<rparr>"

text \<open>Only the read of \<^verbatim>\<open>/4/0\<close> times out.\<close>

definition env_network_timeout :: env where
  "env_network_timeout =
     \<lparr>ctx_outcome = (\<lambda>t port. None),
      message_outcome = (\<lambda>m. None),
      net_outcome = (\<lambda>t ctx req.
        if uri req = ''coap://127.0.0.1:5683/4/0'' then Inl (LibraryError ''timeout'')
        else Inr (content_ok\<lparr>resp_payload := [0x30 + of_nat t]\<rparr>))\<rparr>"


text \<open>
  A client whose server port is no port, and an environment in which everything works
  but the constructor of a message raises on a URI with that port.
\<close>

definition lwm2m_client_port70000 :: LwM2MClient where
  "lwm2m_client_port70000 = lwm2m_client0\<lparr>server_port := 70000\<rparr>"

definition env_checks_port :: env where
  "env_checks_port =
     \<lparr>ctx_outcome = (\<lambda>t port. None),
      message_outcome = (\<lambda>m.
        if take 22 (uri m) = ''coap://127.0.0.1:70000''
        then Some (LibraryError ''Port out of range 0-65535'')
        else None),
      net_outcome = (\<lambda>t ctx req. Inr content_ok)\<rparr>"

text \<open>The server answers the read of \<^verbatim>\<open>/4/0\<close> with 4.04.\<close>

definition env_network_404 :: env where
  "env_network_404 =
     \<lparr>ctx_outcome = (\<lambda>t port. None),
      message_outcome = (\<lambda>m. None),
      net_outcome = (\<lambda>t ctx req.
        if uri req = ''coap://127.0.0.1:5683/4/0'' then Inr not_found
        else Inr content_ok)\<rparr>"

section \<open>What each library call leaves in the world\<close>

lemma get_context_granted:
  "granted E self w \<Longrightarrow>
   get_context E self w =
     (Inr (next_ctx w),
      \<lparr>trace = trace w @ [CreateContext (coap_port self) (Inr (next_ctx w))],
       next_ctx = Suc (next_ctx w)\<rparr>)"
  by (simp add: granted_def get_context_def create_client_context_def)

lemma get_context_refused:
  "ctx_outcome E (now w) (coap_port self) = Some e \<Longrightarrow>
   get_context E self w =
     (Inl e, w\<lparr>trace := trace w @ [CreateContext (coap_port self) (Inl e)]\<rparr>)"
  by (simp add: get_context_def create_client_context_def)

lemma not_granted_iff:
  "(\<not> granted E self w) = (\<exists>e. ctx_outcome E (now w) (coap_port self) = Some e)"
  by (simp add: granted_def)

lemma Message_accepted: "accepted E m \<Longrightarrow> Message E m = Inr m"
  by (simp add: Message_def accepted_def)

lemma Message_refused: "message_outcome E m = Some e \<Longrightarrow> Message E m = Inl e"
  by (simp add: Message_def)

lemma request_eq:
  "request E ctx req w =
     (net_outcome E (now w) ctx req,
      w\<lparr>trace := trace w @ [Request ctx req (net_outcome E (now w) ctx req)]\<rparr>)"
  by (simp add: request_def Let_def)

lemma since_append: "since w (w\<lparr>trace := trace w @ es\<rparr>) = es"
  by (simp add: since_def now_def)

lemma since_append_make: "since w \<lparr>trace = trace w @ es, next_ctx = n\<rparr> = es"
  by (simp add: since_def now_def)

lemma now_append: "now (w\<lparr>trace := trace w @ es\<rparr>) = now w + length es"
  by (simp add: now_def)

lemma io_bind_lift_Inr: "io_bind (io_lift (Inr x)) f = f x"
  by (rule ext) (simp add: io_bind_def io_lift_def)

lemma io_bind_lift_Inl: "io_bind (io_lift (Inl e)) f w = (Inl e, w)"
  by (simp add: io_bind_def io_lift_def)

lemma io_bind_get_context_granted:
  "granted E self w \<Longrightarrow>
   io_bind (get_context E self) f w =
     f (next_ctx w)
       \<lparr>trace = trace w @ [CreateContext (coap_port self) (Inr (next_ctx w))],
        next_ctx = Suc (next_ctx w)\<rparr>"
  by (simp add: io_bind_def get_context_granted)

lemma io_bind_get_context_refused:
  "ctx_outcome E (now w) (coap_port self) = Some e \<Longrightarrow>
   io_bind (get_context E self) f w =
     (Inl e, w\<lparr>trace := trace w @ [CreateContext (coap_port self) (Inl e)]\<rparr>)"
  by (simp add: io_bind_def get_context_refused)

text \<open>
  One guarded read: the value is that of the outcome, and the request is in the trace
  only when the message was built.
\<close>

lemma safe_get_eq:
  "safe_get E self c path w =
     (Inr (field_of (read_at E c (now w) (get_request self path))),
      w\<lparr>trace := trace w @ sent_from E c (now w) [get_request self path]\<rparr>)"
proof (cases "message_outcome E (get_request self path)")
  case None
  then have "accepted E (get_request self path)"
    by (simp add: accepted_def)
  with None show ?thesis
    by (simp add: safe_get_def Message_accepted io_bind_lift_Inr io_bind_def request_eq
        io_return_def field_of_def read_at_def split: sum.splits)
next
  case (Some e)
  then have "\<not> accepted E (get_request self path)"
    by (simp add: accepted_def)
  with Some show ?thesis
    by (simp add: safe_get_def Message_refused io_bind_lift_Inl field_of_def read_at_def)
qed

lemma io_bind_safe_get:
  "io_bind (safe_get E self c path) f w =
     f (case fst (safe_get E self c path w) of Inl e \<Rightarrow> None | Inr v \<Rightarrow> v)
       (snd (safe_get E self c path w))"
  by (simp add: io_bind_def safe_get_eq)

lemma safe_gets_eq:
  "safe_gets E self c paths w =
     (map field_of (outcomes_from E c (now w) (map (get_request self) paths)),
      w\<lparr>trace := trace w @ sent_from E c (now w) (map (get_request self) paths)\<rparr>)"
proof (induction paths arbitrary: w)
  case Nil
  show ?case by simp
next
  case (Cons path paths)
  let ?m = "get_request self path"
  let ?w1 = "w\<lparr>trace := trace w @ sent_from E c (now w) [?m]\<rparr>"
  have s: "snd (safe_get E self c path w) = ?w1"
    and v: "fst (safe_get E self c path w) = Inr (field_of (read_at E c (now w) ?m))"
    by (simp_all add: safe_get_eq)
  show ?case
    by (cases "accepted E ?m") (simp_all add: s v Cons.IH now_append)
qed

lemma length_outcomes_from: "length (outcomes_from E c t ms) = length ms"
  by (induction ms arbitrary: t) simp_all

lemma requests_sent_from:
  "requests (sent_from E c t ms) = map (\<lambda>m. (c, m)) (filter (accepted E) ms)"
  by (induction ms arbitrary: t) simp_all

lemma request_on_sent_from: "list_all (request_on c) (sent_from E c t ms)"
  by (induction ms arbitrary: t) simp_all

lemma outcome_Inr_accepted:
  "k < length ms \<Longrightarrow> outcomes_from E c t ms ! k = Inr r \<Longrightarrow> accepted E (ms ! k)"
proof (induction ms arbitrary: t k)
  case Nil
  then show ?case by simp
next
  case (Cons m ms)
  show ?case
  proof (cases k)
    case 0
    with Cons.prems show ?thesis
      by (auto simp: read_at_def accepted_def split: option.splits)
  next
    case (Suc k')
    with Cons.prems Cons.IH [of k'] show ?thesis by simp
  qed
qed

text \<open>The URIs of the two concrete clients.\<close>

lemma str_int_5683: "str_int 5683 = ''5683''"
  by (simp add: str_int_def digits.simps)

lemma coap_uri_client0: "coap_uri lwm2m_client0 path = ''coap://127.0.0.1:5683'' @ path"
  by (simp add: coap_uri_def lwm2m_client0_def str_int_5683)

lemma str_int_70000: "str_int 70000 = ''70000''"
  by (simp add: str_int_def digits.simps)

lemma coap_uri_client_port70000:
  "coap_uri lwm2m_client_port70000 path = ''coap://127.0.0.1:70000'' @ path"
  by (simp add: coap_uri_def lwm2m_client_port70000_def lwm2m_client0_def str_int_70000)

lemma env_checks_port_refuses:
  "uri m = ''coap://127.0.0.1:70000'' @ path \<Longrightarrow>
   message_outcome env_checks_port m = Some (LibraryError ''Port out of range 0-65535'')"
  by (simp add: env_checks_port_def)

section \<open>Closed forms of the three methods\<close>

lemma lookup_object_simps:
  "lookup_object ''device_identity'' = Inr ''/3/0''"
  "lookup_object ''memory_free'' = Inr ''/3/0/10''"
  "lookup_object ''memory_total'' = Inr ''/3/0/9''"
  "lookup_object ''network'' = Inr ''/4/0''"
  "lookup_object ''firmware_state'' = Inr ''/5/0/3''"
  "lookup_object ''firmware_result'' = Inr ''/5/0/5''"
  "lookup_object ''location'' = Inr ''/6/0''"
  by (simp_all add: lookup_object_def LWM2M_OBJECTS_def)

lemma get_device_info_safe_gets:
  assumes "granted E self w"
  shows "get_device_info E self w =
     (Inr (zip field_names
        (fst (safe_gets E self (next_ctx w) read_paths
           \<lparr>trace = trace w @ [CreateContext (coap_port self) (Inr (next_ctx w))],
            next_ctx = Suc (next_ctx w)\<rparr>))),
      snd (safe_gets E self (next_ctx w) read_paths
           \<lparr>trace = trace w @ [CreateContext (coap_port self) (Inr (next_ctx w))],
            next_ctx = Suc (next_ctx w)\<rparr>))"
  unfolding get_device_info_def
  by (simp add: io_bind_get_context_granted [OF assms] lookup_object_simps io_bind_lift_Inr
      io_bind_safe_get io_return_def field_names_def read_paths_def)

lemma get_device_info_granted:
  assumes "granted E self w"
  shows "get_device_info E self w =
     (Inr (zip field_names (map field_of (read_outcomes E self w))),
      \<lparr>trace = trace w @ CreateContext (coap_port self) (Inr (next_ctx w)) #
         sent_from E (next_ctx w) (Suc (now w)) (map (get_request self) read_paths),
       next_ctx = Suc (next_ctx w)\<rparr>)"
  by (simp add: get_device_info_safe_gets [OF assms] safe_gets_eq read_outcomes_def now_def)

lemma get_device_info_refused:
  assumes "ctx_outcome E (now w) (coap_port self) = Some e"
  shows "get_device_info E self w =
     (Inl e, w\<lparr>trace := trace w @ [CreateContext (coap_port self) (Inl e)]\<rparr>)"
  unfolding get_device_info_def
  by (simp add: io_bind_get_context_refused [OF assms])

lemma length_read_outcomes: "length (read_outcomes E self w) = 7"
  by (simp add: read_outcomes_def read_paths_def length_outcomes_from)

lemma requests_get_device_info_granted:
  assumes "granted E self w"
  shows "requests (since w (snd (get_device_info E self w)))
     = map (\<lambda>m. (next_ctx w, m)) (filter (accepted E) (map (get_request self) read_paths))"
  by (simp add: get_device_info_granted [OF assms] since_append_make requests_sent_from)

lemma requests_get_device_info_refused:
  assumes "\<not> granted E self w"
  shows "requests (since w (snd (get_device_info E self w))) = []"
proof -
  from assms obtain e where "ctx_outcome E (now w) (coap_port self) = Some e"
    by (auto simp: not_granted_iff)
  then show ?thesis
    by (simp add: get_device_info_refused since_append)
qed

lemma read_paths_from_table:
  "map snd (filter (\<lambda>(name, path). name \<noteq> ''power'') LWM2M_OBJECTS) = read_paths"
  by (simp add: LWM2M_OBJECTS_def read_paths_def)

lemma command_path_unknown:
  "command \<notin> set (map (JStr \<circ> fst) Command_Table) \<Longrightarrow>
   command_path command = Inl (Exception ''Unknown command'')"
  by (simp add: Command_Table_def command_path_def)

lemma command_path_known:
  "(name, path) \<in> set Command_Table \<Longrightarrow> command_path (JStr name) = Inr path"
  by (auto simp: Command_Table_def command_path_def)

lemma execute_command_granted:
  assumes "granted E self w"
  shows "execute_command E self command w =
     (case command_path command of
        Inl e \<Rightarrow>
          (Inl e,
           \<lparr>trace = trace w @ [CreateContext (coap_port self) (Inr (next_ctx w))],
            next_ctx = Suc (next_ctx w)\<rparr>)
      | Inr path \<Rightarrow>
          (case message_outcome E
                  \<lparr>code = POST, uri = coap_uri self path, uri_query = [], payload = []\<rparr> of
             Some e \<Rightarrow>
               (Inl e,
                \<lparr>trace = trace w @ [CreateContext (coap_port self) (Inr (next_ctx w))],
                 next_ctx = Suc (next_ctx w)\<rparr>)
           | None \<Rightarrow>
               (net_outcome E (Suc (now w)) (next_ctx w)
                  \<lparr>code = POST, uri = coap_uri self path, uri_query = [], payload = []\<rparr>,
                \<lparr>trace = trace w @
                   [CreateContext (coap_port self) (Inr (next_ctx w)),
                    Request (next_ctx w)
                      \<lparr>code = POST, uri = coap_uri self path, uri_query = [], payload = []\<rparr>
                      (net_outcome E (Suc (now w)) (next_ctx w)
                         \<lparr>code = POST, uri = coap_uri self path, uri_query = [],
                          payload = []\<rparr>)],
                 next_ctx = Suc (next_ctx w)\<rparr>)))"
  unfolding execute_command_def
  by (simp add: io_bind_get_context_granted [OF assms] io_bind_lift_Inr io_bind_lift_Inl
      Message_def request_eq now_def split: sum.splits option.splits)

lemma execute_command_refused:
  assumes "ctx_outcome E (now w) (coap_port self) = Some e"
  shows "execute_command E self command w =
     (Inl e, w\<lparr>trace := trace w @ [CreateContext (coap_port self) (Inl e)]\<rparr>)"
  unfolding execute_command_def
  by (simp add: io_bind_get_context_refused [OF assms])


lemma register_query_object:
  "register_query self (JObj items) =
     (case map_of items ''objects'' of
        Some (JList xs) \<Rightarrow>
          (case str_items xs of
             Inl e \<Rightarrow> Inl e
           | Inr ss \<Rightarrow>
               Inr [''ep='' @ epname self, ''lt=86400'', ''b=U'', ''lwm2m='' @ join '','' ss])
      | _ \<Rightarrow> Inr [''ep='' @ epname self, ''lt=86400'', ''b=U''])"
proof (cases "map_of items ''objects''")
  case None
  then have "''objects'' \<notin> set (map fst items)"
    by (simp add: map_of_eq_None_iff)
  with None show ?thesis
    by (simp add: register_query_def py_in_def)
next
  case (Some v)
  then have "''objects'' \<in> set (map fst items)"
    by (metis map_of_eq_None_iff option.distinct(1) set_map)
  with Some show ?thesis
    by (cases v) (simp_all add: register_query_def py_in_def subscript_def py_join_def
        split: sum.splits)
qed

lemma register_granted:
  assumes "granted E self w"
  shows "register E self params w =
     (case register_query self params of
        Inl e \<Rightarrow>
          (Inl e,
           \<lparr>trace = trace w @ [CreateContext (coap_port self) (Inr (next_ctx w))],
            next_ctx = Suc (next_ctx w)\<rparr>)
      | Inr query \<Rightarrow>
          (case message_outcome E
                  \<lparr>code = POST, uri = coap_uri self ''/rd'', uri_query = query,
                   payload = []\<rparr> of
             Some e \<Rightarrow>
               (Inl e,
                \<lparr>trace = trace w @ [CreateContext (coap_port self) (Inr (next_ctx w))],
                 next_ctx = Suc (next_ctx w)\<rparr>)
           | None \<Rightarrow>
               (net_outcome E (Suc (now w)) (next_ctx w)
                  \<lparr>code = POST, uri = coap_uri self ''/rd'', uri_query = query,
                   payload = []\<rparr>,
                \<lparr>trace = trace w @
                   [CreateContext (coap_port self) (Inr (next_ctx w)),
                    Request (next_ctx w)
                      \<lparr>code = POST, uri = coap_uri self ''/rd'', uri_query = query,
                       payload = []\<rparr>
                      (net_outcome E (Suc (now w)) (next_ctx w)
                         \<lparr>code = POST, uri = coap_uri self ''/rd'', uri_query = query,
                          payload = []\<rparr>)],
                 next_ctx = Suc (next_ctx w)\<rparr>)))"
  unfolding register_def
  by (simp add: io_bind_get_context_granted [OF assms] io_bind_lift_Inr io_bind_lift_Inl
      Message_def request_eq now_def LWM2M_REG_PATH_def split: sum.splits option.splits)

lemma register_refused:
  assumes "ctx_outcome E (now w) (coap_port self) = Some e"
  shows "register E self params w =
     (Inl e, w\<lparr>trace := trace w @ [CreateContext (coap_port self) (Inl e)]\<rparr>)"
  unfolding register_def
  by (simp add: io_bind_get_context_refused [OF assms])

section \<open>The device information snapshot\<close>

text \<open>
  C1. \<^verbatim>\<open>get_device_info\<close> creates its context outside the \<^verbatim>\<open>try\<close> of \<^verbatim>\<open>safe_get\<close>.
  Whenever the context is created, the method returns normally, whatever the seven reads
  do: the snapshot has exactly the seven keys identity, memory_free, memory_total,
  network, firmware_state, firmware_update_result and location, in that order, and the
  value under each is \<open>None\<close> when its read raised (in building the message or in
  the request) and the decoded payload of the response otherwise; \<^verbatim>\<open>info_handler\<close>
  answers 200 with that snapshot. When creating the context raises, the method raises
  that exception to its caller, and \<^verbatim>\<open>info_handler\<close> answers 500.
\<close>

theorem get_device_info_snapshot:
  "(granted E self w \<longrightarrow>
      (\<exists>info. fst (get_device_info E self w) = Inr info
         \<and> map fst info =
             [''identity'', ''memory_free'', ''memory_total'', ''network'', ''firmware_state'',
              ''firmware_update_result'', ''location'']
         \<and> map snd info = map field_of (read_outcomes E self w)
         \<and> fst (info_handler E self w) = JsonResponse 200 (info_body info)))
   \<and> (\<forall>e. ctx_outcome E (now w) (coap_port self) = Some e \<longrightarrow>
         fst (get_device_info E self w) = Inl e
         \<and> fst (info_handler E self w) = JsonResponse 500 [(''error'', FErr e)])"
proof (intro conjI impI allI)
  assume g: "granted E self w"
  let ?info = "zip field_names (map field_of (read_outcomes E self w))"
  have len: "length field_names = length (map field_of (read_outcomes E self w))"
    by (simp add: field_names_def length_read_outcomes)
  have "fst (get_device_info E self w) = Inr ?info"
    by (simp add: get_device_info_granted [OF g])
  moreover have "map fst ?info = field_names"
    using len by (rule map_fst_zip)
  moreover have "map snd ?info = map field_of (read_outcomes E self w)"
    using len by (rule map_snd_zip)
  moreover have "fst (info_handler E self w) = JsonResponse 200 (info_body ?info)"
    by (simp add: info_handler_def get_device_info_granted [OF g])
  ultimately show "\<exists>info. fst (get_device_info E self w) = Inr info
         \<and> map fst info =
             [''identity'', ''memory_free'', ''memory_total'', ''network'', ''firmware_state'',
              ''firmware_update_result'', ''location'']
         \<and> map snd info = map field_of (read_outcomes E self w)
         \<and> fst (info_handler E self w) = JsonResponse 200 (info_body info)"
    by (simp add: field_names_def)
next
  fix e assume r: "ctx_outcome E (now w) (coap_port self) = Some e"
  show "fst (get_device_info E self w) = Inl e"
    by (simp add: get_device_info_refused [OF r])
  show "fst (info_handler E self w) = JsonResponse 500 [(''error'', FErr e)]"
    by (simp add: info_handler_def get_device_info_refused [OF r])
qed

lemma read_outcomes_silent:
  "map field_of (read_outcomes env_silent lwm2m_client0 world0)
     = [None, None, None, None, None, None, None]"
  by (simp add: read_outcomes_def read_paths_def read_at_def accepted_def env_silent_def
      field_of_def)

lemma read_outcomes_port70000:
  "read_outcomes env_checks_port lwm2m_client_port70000 world0
     = replicate 7 (Inl (LibraryError ''Port out of range 0-65535''))"
  by (simp add: read_outcomes_def read_paths_def read_at_def accepted_def get_request_def
      coap_uri_client_port70000 env_checks_port_refuses eval_nat_numeral)

theorem get_device_info_snapshot_witness:
  "granted env_silent lwm2m_client0 world0
   \<and> (\<exists>info. fst (get_device_info env_silent lwm2m_client0 world0) = Inr info
        \<and> map fst info =
            [''identity'', ''memory_free'', ''memory_total'', ''network'', ''firmware_state'',
             ''firmware_update_result'', ''location'']
        \<and> map snd info = [None, None, None, None, None, None, None])
   \<and> granted env_checks_port lwm2m_client_port70000 world0
   \<and> (\<exists>info. fst (get_device_info env_checks_port lwm2m_client_port70000 world0) = Inr info
        \<and> map snd info = [None, None, None, None, None, None, None])
   \<and> ctx_outcome env_bind_fails (now world0) (coap_port lwm2m_client0)
        = Some (LibraryError ''address already in use'')
   \<and> fst (get_device_info env_bind_fails lwm2m_client0 world0)
        = Inl (LibraryError ''address already in use'')"
proof -
  have g: "granted env_silent lwm2m_client0 world0"
    by (simp add: granted_def env_silent_def)
  have g': "granted env_checks_port lwm2m_client_port70000 world0"
    by (simp add: granted_def env_checks_port_def)
  have r: "ctx_outcome env_bind_fails (now world0) (coap_port lwm2m_client0)
        = Some (LibraryError ''address already in use'')"
    by (simp add: env_bind_fails_def)
  have o': "map field_of (read_outcomes env_checks_port lwm2m_client_port70000 world0)
        = [None, None, None, None, None, None, None]"
    by (simp add: read_outcomes_port70000 field_of_def eval_nat_numeral)
  from get_device_info_snapshot [of env_silent lwm2m_client0 world0] g read_outcomes_silent
  have a: "\<exists>info. fst (get_device_info env_silent lwm2m_client0 world0) = Inr info
        \<and> map fst info =
            [''identity'', ''memory_free'', ''memory_total'', ''network'', ''firmware_state'',
             ''firmware_update_result'', ''location'']
        \<and> map snd info = [None, None, None, None, None, None, None]"
    by auto
  from get_device_info_snapshot [of env_checks_port lwm2m_client_port70000 world0] g' o'
  have a': "\<exists>info. fst (get_device_info env_checks_port lwm2m_client_port70000 world0) = Inr info
        \<and> map snd info = [None, None, None, None, None, None, None]"
    by auto
  from get_device_info_snapshot [of env_bind_fails lwm2m_client0 world0] r
  have b: "fst (get_device_info env_bind_fails lwm2m_client0 world0)
        = Inl (LibraryError ''address already in use'')"
    by blast
  from g a g' a' r b show ?thesis by blast
qed

text \<open>
  As the claim has it, the method would return a snapshot on every invocation. With a
  port that cannot be bound it raises instead.
\<close>

theorem get_device_info_raises_counterexample:
  "fst (get_device_info env_bind_fails lwm2m_client0 world0)
     = Inl (LibraryError ''address already in use'')
   \<and> fst (info_handler env_bind_fails lwm2m_client0 world0)
     = JsonResponse 500 [(''error'', FErr (LibraryError ''address already in use''))]"
proof -
  have "ctx_outcome env_bind_fails (now world0) (coap_port lwm2m_client0)
          = Some (LibraryError ''address already in use'')"
    by (simp add: env_bind_fails_def)
  then show ?thesis
    by (simp add: get_device_info_refused info_handler_def)
qed

text \<open>
  C2. When the context is created, exactly one of the seven reads raises (in building
  its message or in its request) and the other six return responses, the snapshot has
  \<open>None\<close> under that read's key alone and the decoded payload of its own response
  under each of the other six, and the requests of those six are all sent. A read fails
  only by raising: \<^verbatim>\<open>safe_get\<close> never looks at the code of a response.
\<close>

theorem one_read_raises:
  assumes g: "granted E self w"
    and j: "j < 7"
    and raised: "read_outcomes E self w ! j = Inl e"
    and others: "\<forall>k<7. k \<noteq> j \<longrightarrow> read_outcomes E self w ! k = Inr (resp k)"
  shows "\<exists>info. fst (get_device_info E self w) = Inr info
     \<and> map fst info =
         [''identity'', ''memory_free'', ''memory_total'', ''network'', ''firmware_state'',
          ''firmware_update_result'', ''location'']
     \<and> map snd info =
         (map (\<lambda>k. Some (utf8_decode_ignore (resp_payload (resp k)))) [0..<7])[j := None]
     \<and> (\<forall>k<7. k \<noteq> j \<longrightarrow>
          (next_ctx w, get_request self (read_paths ! k))
            \<in> set (requests (since w (snd (get_device_info E self w)))))"
proof -
  let ?info = "zip field_names (map field_of (read_outcomes E self w))"
  let ?vals = "(map (\<lambda>k. Some (utf8_decode_ignore (resp_payload (resp k)))) [0..<7])[j := None]"
  have len: "length field_names = length (map field_of (read_outcomes E self w))"
    by (simp add: field_names_def length_read_outcomes)
  have res: "fst (get_device_info E self w) = Inr ?info"
    by (simp add: get_device_info_granted [OF g])
  have keys: "map fst ?info = field_names"
    using len by (rule map_fst_zip)
  have vals: "map snd ?info = map field_of (read_outcomes E self w)"
    using len by (rule map_snd_zip)
  have "map field_of (read_outcomes E self w) = ?vals"
  proof (rule nth_equalityI)
    show "length (map field_of (read_outcomes E self w)) = length ?vals"
      by (simp add: length_read_outcomes)
  next
    fix i assume "i < length (map field_of (read_outcomes E self w))"
    then have i: "i < 7" by (simp add: length_read_outcomes)
    show "map field_of (read_outcomes E self w) ! i = ?vals ! i"
    proof (cases "i = j")
      case True
      with i raised show ?thesis
        by (simp add: length_read_outcomes field_of_def)
    next
      case False
      with i others have "read_outcomes E self w ! i = Inr (resp i)" by blast
      with i False show ?thesis
        by (simp add: length_read_outcomes field_of_def)
    qed
  qed
  with vals have vals': "map snd ?info = ?vals" by simp
  have sent: "\<forall>k<7. k \<noteq> j \<longrightarrow>
      (next_ctx w, get_request self (read_paths ! k))
        \<in> set (requests (since w (snd (get_device_info E self w))))"
  proof (intro allI impI)
    fix k :: nat assume k: "k < 7" and kj: "k \<noteq> j"
    let ?ms = "map (get_request self) read_paths"
    have lk: "k < length ?ms"
      using k by (simp add: read_paths_def)
    from k kj others have "read_outcomes E self w ! k = Inr (resp k)" by blast
    then have "outcomes_from E (next_ctx w) (Suc (now w)) ?ms ! k = Inr (resp k)"
      by (simp add: read_outcomes_def)
    with lk have "accepted E (?ms ! k)"
      by (rule outcome_Inr_accepted)
    moreover have "?ms ! k \<in> set ?ms"
      using lk by (rule nth_mem)
    moreover have "?ms ! k = get_request self (read_paths ! k)"
      using lk by simp
    ultimately show "(next_ctx w, get_request self (read_paths ! k))
        \<in> set (requests (since w (snd (get_device_info E self w))))"
      by (auto simp: requests_get_device_info_granted [OF g])
  qed
  from res keys vals' sent show ?thesis
    by (simp add: field_names_def)
qed

lemma read_outcomes_network_timeout:
  "read_outcomes env_network_timeout lwm2m_client0 world0 =
     [Inr (content_ok\<lparr>resp_payload := [0x31]\<rparr>),
      Inr (content_ok\<lparr>resp_payload := [0x32]\<rparr>),
      Inr (content_ok\<lparr>resp_payload := [0x33]\<rparr>),
      Inl (LibraryError ''timeout''),
      Inr (content_ok\<lparr>resp_payload := [0x35]\<rparr>),
      Inr (content_ok\<lparr>resp_payload := [0x36]\<rparr>),
      Inr (content_ok\<lparr>resp_payload := [0x37]\<rparr>)]"
  by (simp add: read_outcomes_def read_paths_def read_at_def accepted_def
      env_network_timeout_def get_request_def coap_uri_client0 world0_def now_def)

theorem one_read_raises_witness:
  "granted env_network_timeout lwm2m_client0 world0
   \<and> read_outcomes env_network_timeout lwm2m_client0 world0 ! 3 = Inl (LibraryError ''timeout'')
   \<and> (\<exists>info. fst (get_device_info env_network_timeout lwm2m_client0 world0) = Inr info
        \<and> map snd info =
            [Some [0x31], Some [0x32], Some [0x33], None, Some [0x35], Some [0x36], Some [0x37]])"
proof -
  let ?resp = "\<lambda>k. content_ok\<lparr>resp_payload := [0x31 + of_nat k]\<rparr>"
  have g: "granted env_network_timeout lwm2m_client0 world0"
    by (simp add: granted_def env_network_timeout_def)
  have j: "(3::nat) < 7" by simp
  have raised: "read_outcomes env_network_timeout lwm2m_client0 world0 ! 3
      = Inl (LibraryError ''timeout'')"
    by (simp add: read_outcomes_network_timeout)
  have others: "\<forall>k<7. k \<noteq> 3 \<longrightarrow>
      read_outcomes env_network_timeout lwm2m_client0 world0 ! k = Inr (?resp k)"
  proof (intro allI impI)
    fix k :: nat assume "k < 7" "k \<noteq> 3"
    then have "k = 0 \<or> k = 1 \<or> k = 2 \<or> k = 4 \<or> k = 5 \<or> k = 6" by arith
    then show "read_outcomes env_network_timeout lwm2m_client0 world0 ! k = Inr (?resp k)"
      by (auto simp: read_outcomes_network_timeout)
  qed
  have vals: "(map (\<lambda>k. Some (utf8_decode_ignore (resp_payload (?resp k)))) [0..<7])[3 := None]
      = [Some [0x31], Some [0x32], Some [0x33], None, Some [0x35], Some [0x36], Some [0x37]]"
    by (simp add: upt_rec)
  from one_read_raises [OF g j raised others] vals
  have "\<exists>info. fst (get_device_info env_network_timeout lwm2m_client0 world0) = Inr info
        \<and> map snd info =
            [Some [0x31], Some [0x32], Some [0x33], None, Some [0x35], Some [0x36], Some [0x37]]"
    by auto
  with g raised show ?thesis by blast
qed

text \<open>
  The claim counts a non-success status among the failures. A 4.04 answer to the read
  of \<^verbatim>\<open>/4/0\<close> leaves the decoded (empty) payload under \<^verbatim>\<open>network\<close>, not \<open>None\<close>.
\<close>

theorem non_success_status_counterexample:
  "read_outcomes env_network_404 lwm2m_client0 world0 ! 3 = Inr not_found
   \<and> resp_code not_found = 4 * 32 + 4
   \<and> fst (get_device_info env_network_404 lwm2m_client0 world0) =
       Inr [(''identity'', Some [0x6F, 0x6B]),
            (''memory_free'', Some [0x6F, 0x6B]),
            (''memory_total'', Some [0x6F, 0x6B]),
            (''network'', Some []),
            (''firmware_state'', Some [0x6F, 0x6B]),
            (''firmware_update_result'', Some [0x6F, 0x6B]),
            (''location'', Some [0x6F, 0x6B])]"
proof -
  have g: "granted env_network_404 lwm2m_client0 world0"
    by (simp add: granted_def env_network_404_def)
  have o: "read_outcomes env_network_404 lwm2m_client0 world0 =
     [Inr content_ok, Inr content_ok, Inr content_ok, Inr not_found,
      Inr content_ok, Inr content_ok, Inr content_ok]"
    by (simp add: read_outcomes_def read_paths_def read_at_def accepted_def
        env_network_404_def get_request_def coap_uri_client0)
  show ?thesis
    by (simp add: get_device_info_granted [OF g] o field_names_def field_of_def
        content_ok_def not_found_def)
qed

text \<open>
  C6. When the context is created, \<^verbatim>\<open>get_device_info\<close> sends one GET request, on that
  context, for each entry of \<open>LWM2M_OBJECTS\<close> other than \<^verbatim>\<open>power\<close> whose message the
  library builds, in the order of the table: exactly seven when all seven messages are
  built, to the paths /3/0, /3/0/10, /3/0/9, /4/0, /5/0/3, /5/0/5 and /6/0. A read
  whose message cannot be built sends nothing, and so does the method when the context
  is not created.
\<close>

theorem get_device_info_reads:
  "requests (since w (snd (get_device_info E self w))) =
     (if granted E self w
      then map (\<lambda>(name, path). (next_ctx w, get_request self path))
             (filter (\<lambda>(name, path). name \<noteq> ''power'' \<and> accepted E (get_request self path))
                LWM2M_OBJECTS)
      else [])
   \<and> map snd (filter (\<lambda>(name, path). name \<noteq> ''power'') LWM2M_OBJECTS)
       = [''/3/0'', ''/3/0/10'', ''/3/0/9'', ''/4/0'', ''/5/0/3'', ''/5/0/5'', ''/6/0'']
   \<and> code (get_request self path) = GET
   \<and> (granted E self w \<and> list_all (\<lambda>path. accepted E (get_request self path)) read_paths \<longrightarrow>
        requests (since w (snd (get_device_info E self w))) =
          map (\<lambda>path. (next_ctx w, get_request self path))
            [''/3/0'', ''/3/0/10'', ''/3/0/9'', ''/4/0'', ''/5/0/3'', ''/5/0/5'', ''/6/0''])"
proof -
  have m: "map (\<lambda>(name, path). (next_ctx w, get_request self path))
             (filter (\<lambda>(name, path). name \<noteq> ''power'' \<and> accepted E (get_request self path))
                LWM2M_OBJECTS)
         = map (\<lambda>m. (next_ctx w, m)) (filter (accepted E) (map (get_request self) read_paths))"
    by (simp add: LWM2M_OBJECTS_def read_paths_def)
  have r: "requests (since w (snd (get_device_info E self w))) =
     (if granted E self w
      then map (\<lambda>(name, path). (next_ctx w, get_request self path))
             (filter (\<lambda>(name, path). name \<noteq> ''power'' \<and> accepted E (get_request self path))
                LWM2M_OBJECTS)
      else [])"
    by (simp add: m requests_get_device_info_granted requests_get_device_info_refused)
  have p: "map snd (filter (\<lambda>(name, path). name \<noteq> ''power'') LWM2M_OBJECTS)
       = [''/3/0'', ''/3/0/10'', ''/3/0/9'', ''/4/0'', ''/5/0/3'', ''/5/0/5'', ''/6/0'']"
    by (simp add: read_paths_from_table read_paths_def)
  have c: "code (get_request self path) = GET"
    by (simp add: get_request_def)
  have a: "granted E self w \<and> list_all (\<lambda>path. accepted E (get_request self path)) read_paths
      \<longrightarrow> requests (since w (snd (get_device_info E self w))) =
          map (\<lambda>path. (next_ctx w, get_request self path))
            [''/3/0'', ''/3/0/10'', ''/3/0/9'', ''/4/0'', ''/5/0/3'', ''/5/0/5'', ''/6/0'']"
  proof
    assume h: "granted E self w
      \<and> list_all (\<lambda>path. accepted E (get_request self path)) read_paths"
    then have "filter (accepted E) (map (get_request self) read_paths)
        = map (get_request self) read_paths"
      by (simp add: list_all_iff)
    with h show "requests (since w (snd (get_device_info E self w))) =
          map (\<lambda>path. (next_ctx w, get_request self path))
            [''/3/0'', ''/3/0/10'', ''/3/0/9'', ''/4/0'', ''/5/0/3'', ''/5/0/5'', ''/6/0'']"
      by (simp add: requests_get_device_info_granted read_paths_def)
  qed
  from r p c a show ?thesis by blast
qed

theorem get_device_info_reads_witness:
  "granted env_up lwm2m_client0 world0
   \<and> list_all (\<lambda>path. accepted env_up (get_request lwm2m_client0 path)) read_paths
   \<and> map (uri \<circ> snd) (requests (since world0 (snd (get_device_info env_up lwm2m_client0 world0))))
       = [''coap://127.0.0.1:5683/3/0'', ''coap://127.0.0.1:5683/3/0/10'',
          ''coap://127.0.0.1:5683/3/0/9'', ''coap://127.0.0.1:5683/4/0'',
          ''coap://127.0.0.1:5683/5/0/3'', ''coap://127.0.0.1:5683/5/0/5'',
          ''coap://127.0.0.1:5683/6/0'']
   \<and> \<not> granted env_bind_fails lwm2m_client0 world0
   \<and> requests (since world0 (snd (get_device_info env_bind_fails lwm2m_client0 world0))) = []
   \<and> granted env_checks_port lwm2m_client_port70000 world0
   \<and> requests (since world0
        (snd (get_device_info env_checks_port lwm2m_client_port70000 world0))) = []"
proof -
  have g: "granted env_up lwm2m_client0 world0"
    by (simp add: granted_def env_up_def)
  have acc: "list_all (\<lambda>path. accepted env_up (get_request lwm2m_client0 path)) read_paths"
    by (simp add: accepted_def env_up_def list_all_iff)
  have r: "\<not> granted env_bind_fails lwm2m_client0 world0"
    by (simp add: granted_def env_bind_fails_def)
  have g': "granted env_checks_port lwm2m_client_port70000 world0"
    by (simp add: granted_def env_checks_port_def)
  from get_device_info_reads [of world0 env_up lwm2m_client0] g acc
  have "requests (since world0 (snd (get_device_info env_up lwm2m_client0 world0))) =
      map (\<lambda>path. (next_ctx world0, get_request lwm2m_client0 path))
        [''/3/0'', ''/3/0/10'', ''/3/0/9'', ''/4/0'', ''/5/0/3'', ''/5/0/5'', ''/6/0'']"
    by blast
  then have a: "map (uri \<circ> snd)
        (requests (since world0 (snd (get_device_info env_up lwm2m_client0 world0))))
       = [''coap://127.0.0.1:5683/3/0'', ''coap://127.0.0.1:5683/3/0/10'',
          ''coap://127.0.0.1:5683/3/0/9'', ''coap://127.0.0.1:5683/4/0'',
          ''coap://127.0.0.1:5683/5/0/3'', ''coap://127.0.0.1:5683/5/0/5'',
          ''coap://127.0.0.1:5683/6/0'']"
    by (simp add: get_request_def coap_uri_client0)
  from get_device_info_reads [of world0 env_bind_fails lwm2m_client0] r
  have b: "requests (since world0 (snd (get_device_info env_bind_fails lwm2m_client0 world0))) = []"
    by simp
  from get_device_info_reads [of world0 env_checks_port lwm2m_client_port70000] g'
  have c: "requests (since world0
        (snd (get_device_info env_checks_port lwm2m_client_port70000 world0))) = []"
    by (simp add: LWM2M_OBJECTS_def accepted_def get_request_def coap_uri_client_port70000
        env_checks_port_refuses)
  from g acc a r b g' c show ?thesis by blast
qed

text \<open>
  The table has eight entries and the claim has every one of them read. The path of
  \<^verbatim>\<open>power\<close>, \<^verbatim>\<open>/3/0/7\<close>, is not among the seven requests of a run in which everything
  works.
\<close>

theorem power_never_read_counterexample:
  "map_of LWM2M_OBJECTS ''power'' = Some ''/3/0/7''
   \<and> length LWM2M_OBJECTS = 8
   \<and> map (uri \<circ> snd) (requests (trace (snd (get_device_info env_up lwm2m_client0 world0))))
       = [''coap://127.0.0.1:5683/3/0'', ''coap://127.0.0.1:5683/3/0/10'',
          ''coap://127.0.0.1:5683/3/0/9'', ''coap://127.0.0.1:5683/4/0'',
          ''coap://127.0.0.1:5683/5/0/3'', ''coap://127.0.0.1:5683/5/0/5'',
          ''coap://127.0.0.1:5683/6/0'']
   \<and> coap_uri lwm2m_client0 ''/3/0/7'' = ''coap://127.0.0.1:5683/3/0/7''"
proof -
  have g: "granted env_up lwm2m_client0 world0"
    by (simp add: granted_def env_up_def)
  have s: "trace (snd (get_device_info env_up lwm2m_client0 world0))
      = since world0 (snd (get_device_info env_up lwm2m_client0 world0))"
    by (simp add: since_def now_def world0_def)
  have acc: "\<And>m. accepted env_up m"
    by (simp add: accepted_def env_up_def)
  show ?thesis
    unfolding s
    by (simp add: requests_get_device_info_granted [OF g] acc read_paths_def get_request_def
        coap_uri_client0 LWM2M_OBJECTS_def)
qed

section \<open>Commands\<close>

text \<open>
  C3. For a command that is none of the three names of the Command Table,
  \<^verbatim>\<open>execute_command\<close> sends no request. It creates its context before it looks at the
  command: when the context is created, the method raises
  \<^verbatim>\<open>Exception("Unknown command")\<close> and the creation of the context is the only library
  call made; when creating the context raises, that exception is the one raised.
\<close>

theorem execute_command_unknown:
  assumes "command \<notin> set (map (JStr \<circ> fst) Command_Table)"
  shows "requests (since w (snd (execute_command E self command w))) = []
     \<and> (granted E self w \<longrightarrow>
          fst (execute_command E self command w) = Inl (Exception ''Unknown command'')
          \<and> since w (snd (execute_command E self command w))
              = [CreateContext (coap_port self) (Inr (next_ctx w))])
     \<and> (\<forall>e. ctx_outcome E (now w) (coap_port self) = Some e \<longrightarrow>
          fst (execute_command E self command w) = Inl e
          \<and> since w (snd (execute_command E self command w))
              = [CreateContext (coap_port self) (Inl e)])"
proof (intro conjI impI allI)
  show "requests (since w (snd (execute_command E self command w))) = []"
  proof (cases "granted E self w")
    case True
    then show ?thesis
      by (simp add: execute_command_granted command_path_unknown [OF assms] since_append_make)
  next
    case False
    then obtain e where "ctx_outcome E (now w) (coap_port self) = Some e"
      by (auto simp: not_granted_iff)
    then show ?thesis
      by (simp add: execute_command_refused since_append)
  qed
next
  assume g: "granted E self w"
  show "fst (execute_command E self command w) = Inl (Exception ''Unknown command'')"
    by (simp add: execute_command_granted [OF g] command_path_unknown [OF assms])
  show "since w (snd (execute_command E self command w))
      = [CreateContext (coap_port self) (Inr (next_ctx w))]"
    by (simp add: execute_command_granted [OF g] command_path_unknown [OF assms]
        since_append_make)
next
  fix e assume r: "ctx_outcome E (now w) (coap_port self) = Some e"
  show "fst (execute_command E self command w) = Inl e"
    by (simp add: execute_command_refused [OF r])
  show "since w (snd (execute_command E self command w))
      = [CreateContext (coap_port self) (Inl e)]"
    by (simp add: execute_command_refused [OF r] since_append)
qed

theorem execute_command_unknown_witness:
  "JStr ''unknown'' \<notin> set (map (JStr \<circ> fst) Command_Table)
   \<and> granted env_up lwm2m_client0 world0
   \<and> fst (execute_command env_up lwm2m_client0 (JStr ''unknown'') world0)
       = Inl (Exception ''Unknown command'')
   \<and> requests (since world0 (snd (execute_command env_up lwm2m_client0 (JStr ''unknown'') world0)))
       = []
   \<and> ctx_outcome env_bind_fails (now world0) (coap_port lwm2m_client0)
       = Some (LibraryError ''address already in use'')
   \<and> since world0 (snd (execute_command env_bind_fails lwm2m_client0 (JStr ''unknown'') world0))
       = [CreateContext 56830 (Inl (LibraryError ''address already in use''))]"
proof -
  have u: "JStr ''unknown'' \<notin> set (map (JStr \<circ> fst) Command_Table)"
    by (simp add: Command_Table_def)
  have g: "granted env_up lwm2m_client0 world0"
    by (simp add: granted_def env_up_def)
  have r: "ctx_outcome env_bind_fails (now world0) (coap_port lwm2m_client0)
       = Some (LibraryError ''address already in use'')"
    by (simp add: env_bind_fails_def)
  have p: "coap_port lwm2m_client0 = 56830"
    by (simp add: lwm2m_client0_def)
  from execute_command_unknown [OF u, of world0 env_up lwm2m_client0] g
  have a: "fst (execute_command env_up lwm2m_client0 (JStr ''unknown'') world0)
       = Inl (Exception ''Unknown command'')
     \<and> requests (since world0 (snd (execute_command env_up lwm2m_client0 (JStr ''unknown'') world0)))
       = []"
    by blast
  from execute_command_unknown [OF u, of world0 env_bind_fails lwm2m_client0] r p
  have b: "since world0 (snd (execute_command env_bind_fails lwm2m_client0 (JStr ''unknown'') world0))
       = [CreateContext 56830 (Inl (LibraryError ''address already in use''))]"
    by simp
  from u g a r b show ?thesis by blast
qed

text \<open>
  The claim has the unknown command rejected before any network I/O, always with the
  unknown-command error. With a port that cannot be bound the error raised is the
  library's; and where the port can be bound, a context is created on it before the
  command is rejected.
\<close>

theorem unknown_command_after_context_counterexample:
  "execute_command env_bind_fails lwm2m_client0 (JStr ''unknown'') world0
     = (Inl (LibraryError ''address already in use''),
        \<lparr>trace = [CreateContext 56830 (Inl (LibraryError ''address already in use''))],
         next_ctx = 0\<rparr>)
   \<and> execute_command env_up lwm2m_client0 (JStr ''unknown'') world0
     = (Inl (Exception ''Unknown command''),
        \<lparr>trace = [CreateContext 56830 (Inr 0)], next_ctx = 1\<rparr>)"
proof -
  have r: "ctx_outcome env_bind_fails (now world0) (coap_port lwm2m_client0)
       = Some (LibraryError ''address already in use'')"
    by (simp add: env_bind_fails_def)
  have g: "granted env_up lwm2m_client0 world0"
    by (simp add: granted_def env_up_def)
  have a: "execute_command env_bind_fails lwm2m_client0 (JStr ''unknown'') world0
     = (Inl (LibraryError ''address already in use''),
        \<lparr>trace = [CreateContext 56830 (Inl (LibraryError ''address already in use''))],
         next_ctx = 0\<rparr>)"
    by (simp add: execute_command_refused [OF r]) (simp add: world0_def lwm2m_client0_def)
  have b: "execute_command env_up lwm2m_client0 (JStr ''unknown'') world0
     = (Inl (Exception ''Unknown command''),
        \<lparr>trace = [CreateContext 56830 (Inr 0)], next_ctx = 1\<rparr>)"
    by (simp add: execute_command_granted [OF g] command_path_def)
      (simp add: world0_def lwm2m_client0_def)
  from a b show ?thesis by blast
qed

text \<open>
  C8. For each entry of the Command Table, \<^verbatim>\<open>execute_command\<close> creates one context on
  the configured port. When the context is created and the library builds the message,
  the method sends on that context exactly one request: a POST to the URI of the entry's
  path, with no query and no payload. When creating the context raises, or the
  constructor of the message raises, the method raises that exception and sends nothing.
\<close>

theorem execute_command_posts_to_mapped_path:
  assumes "(name, path) \<in> set Command_Table"
  shows "creations (since w (snd (execute_command E self (JStr name) w)))
       = [(coap_port self,
           case ctx_outcome E (now w) (coap_port self) of
             None \<Rightarrow> Inr (next_ctx w) | Some e \<Rightarrow> Inl e)]
     \<and> (granted E self w
          \<and> accepted E \<lparr>code = POST, uri = coap_uri self path, uri_query = [], payload = []\<rparr>
          \<longrightarrow>
          requests (since w (snd (execute_command E self (JStr name) w)))
            = [(next_ctx w,
                \<lparr>code = POST, uri = coap_uri self path, uri_query = [], payload = []\<rparr>)])
     \<and> (\<forall>e. ctx_outcome E (now w) (coap_port self) = Some e \<longrightarrow>
          requests (since w (snd (execute_command E self (JStr name) w))) = []
          \<and> fst (execute_command E self (JStr name) w) = Inl e)
     \<and> (\<forall>e. granted E self w
          \<and> message_outcome E
               \<lparr>code = POST, uri = coap_uri self path, uri_query = [], payload = []\<rparr> = Some e
          \<longrightarrow>
          requests (since w (snd (execute_command E self (JStr name) w))) = []
          \<and> fst (execute_command E self (JStr name) w) = Inl e)"
proof (intro conjI impI allI)
  show "creations (since w (snd (execute_command E self (JStr name) w)))
       = [(coap_port self,
           case ctx_outcome E (now w) (coap_port self) of
             None \<Rightarrow> Inr (next_ctx w) | Some e \<Rightarrow> Inl e)]"
  proof (cases "granted E self w")
    case True
    then have "ctx_outcome E (now w) (coap_port self) = None"
      by (simp add: granted_def)
    with True show ?thesis
      by (simp add: execute_command_granted command_path_known [OF assms] since_append_make
          split: option.splits)
  next
    case False
    then obtain e where "ctx_outcome E (now w) (coap_port self) = Some e"
      by (auto simp: not_granted_iff)
    then show ?thesis
      by (simp add: execute_command_refused since_append)
  qed
next
  assume "granted E self w
    \<and> accepted E \<lparr>code = POST, uri = coap_uri self path, uri_query = [], payload = []\<rparr>"
  then show "requests (since w (snd (execute_command E self (JStr name) w)))
            = [(next_ctx w,
                \<lparr>code = POST, uri = coap_uri self path, uri_query = [], payload = []\<rparr>)]"
    by (simp add: execute_command_granted command_path_known [OF assms] since_append_make
        accepted_def)
next
  fix e assume r: "ctx_outcome E (now w) (coap_port self) = Some e"
  show "requests (since w (snd (execute_command E self (JStr name) w))) = []"
    by (simp add: execute_command_refused [OF r] since_append)
  show "fst (execute_command E self (JStr name) w) = Inl e"
    by (simp add: execute_command_refused [OF r])
next
  fix e assume h: "granted E self w
    \<and> message_outcome E
         \<lparr>code = POST, uri = coap_uri self path, uri_query = [], payload = []\<rparr> = Some e"
  then show "requests (since w (snd (execute_command E self (JStr name) w))) = []"
    by (simp add: execute_command_granted command_path_known [OF assms] since_append_make)
  from h show "fst (execute_command E self (JStr name) w) = Inl e"
    by (simp add: execute_command_granted command_path_known [OF assms])
qed

theorem execute_command_posts_to_mapped_path_witness:
  "(''reboot'', ''/3/0/4'') \<in> set Command_Table
   \<and> (''factory_reset'', ''/3/0/5'') \<in> set Command_Table
   \<and> (''firmware_update'', ''/5/0/2'') \<in> set Command_Table
   \<and> granted env_up lwm2m_client0 world0
   \<and> requests (since world0 (snd (execute_command env_up lwm2m_client0 (JStr ''reboot'') world0)))
       = [(0, \<lparr>code = POST, uri = ''coap://127.0.0.1:5683/3/0/4'', uri_query = [],
               payload = []\<rparr>)]
   \<and> requests (since world0
         (snd (execute_command env_up lwm2m_client0 (JStr ''factory_reset'') world0)))
       = [(0, \<lparr>code = POST, uri = ''coap://127.0.0.1:5683/3/0/5'', uri_query = [],
               payload = []\<rparr>)]
   \<and> requests (since world0
         (snd (execute_command env_up lwm2m_client0 (JStr ''firmware_update'') world0)))
       = [(0, \<lparr>code = POST, uri = ''coap://127.0.0.1:5683/5/0/2'', uri_query = [],
               payload = []\<rparr>)]
   \<and> ctx_outcome env_bind_fails (now world0) (coap_port lwm2m_client0)
       = Some (LibraryError ''address already in use'')
   \<and> fst (execute_command env_bind_fails lwm2m_client0 (JStr ''reboot'') world0)
       = Inl (LibraryError ''address already in use'')
   \<and> granted env_checks_port lwm2m_client_port70000 world0
   \<and> fst (execute_command env_checks_port lwm2m_client_port70000 (JStr ''reboot'') world0)
       = Inl (LibraryError ''Port out of range 0-65535'')"
proof -
  have t1: "(''reboot'', ''/3/0/4'') \<in> set Command_Table"
    and t2: "(''factory_reset'', ''/3/0/5'') \<in> set Command_Table"
    and t3: "(''firmware_update'', ''/5/0/2'') \<in> set Command_Table"
    by (simp_all add: Command_Table_def)
  have g: "granted env_up lwm2m_client0 world0"
    by (simp add: granted_def env_up_def)
  have acc: "\<And>m. accepted env_up m"
    by (simp add: accepted_def env_up_def)
  have r: "ctx_outcome env_bind_fails (now world0) (coap_port lwm2m_client0)
       = Some (LibraryError ''address already in use'')"
    by (simp add: env_bind_fails_def)
  have g': "granted env_checks_port lwm2m_client_port70000 world0"
    by (simp add: granted_def env_checks_port_def)
  have m': "message_outcome env_checks_port
       \<lparr>code = POST, uri = coap_uri lwm2m_client_port70000 ''/3/0/4'', uri_query = [],
        payload = []\<rparr> = Some (LibraryError ''Port out of range 0-65535'')"
    by (simp add: coap_uri_client_port70000 env_checks_port_refuses)
  have n: "next_ctx world0 = 0"
    by (simp add: world0_def)
  from execute_command_posts_to_mapped_path [OF t1, of world0 env_up lwm2m_client0] g acc
  have a1: "requests (since world0
         (snd (execute_command env_up lwm2m_client0 (JStr ''reboot'') world0)))
       = [(0, \<lparr>code = POST, uri = ''coap://127.0.0.1:5683/3/0/4'', uri_query = [],
               payload = []\<rparr>)]"
    by (simp add: coap_uri_client0 n)
  from execute_command_posts_to_mapped_path [OF t2, of world0 env_up lwm2m_client0] g acc
  have a2: "requests (since world0
         (snd (execute_command env_up lwm2m_client0 (JStr ''factory_reset'') world0)))
       = [(0, \<lparr>code = POST, uri = ''coap://127.0.0.1:5683/3/0/5'', uri_query = [],
               payload = []\<rparr>)]"
    by (simp add: coap_uri_client0 n)
  from execute_command_posts_to_mapped_path [OF t3, of world0 env_up lwm2m_client0] g acc
  have a3: "requests (since world0
         (snd (execute_command env_up lwm2m_client0 (JStr ''firmware_update'') world0)))
       = [(0, \<lparr>code = POST, uri = ''coap://127.0.0.1:5683/5/0/2'', uri_query = [],
               payload = []\<rparr>)]"
    by (simp add: coap_uri_client0 n)
  from execute_command_posts_to_mapped_path [OF t1, of world0 env_bind_fails lwm2m_client0] r
  have b: "fst (execute_command env_bind_fails lwm2m_client0 (JStr ''reboot'') world0)
       = Inl (LibraryError ''address already in use'')"
    by blast
  from execute_command_posts_to_mapped_path
    [OF t1, of world0 env_checks_port lwm2m_client_port70000] g' m'
  have c: "fst (execute_command env_checks_port lwm2m_client_port70000 (JStr ''reboot'') world0)
       = Inl (LibraryError ''Port out of range 0-65535'')"
    by blast
  from t1 t2 t3 g a1 a2 a3 r b g' c show ?thesis by blast
qed

text \<open>
  The claim has every valid command posted. With a port that cannot be bound, and with
  a server port on which the constructor of the message raises, \<^verbatim>\<open>reboot\<close> sends
  nothing.
\<close>

theorem command_not_posted_counterexample:
  "execute_command env_bind_fails lwm2m_client0 (JStr ''reboot'') world0
     = (Inl (LibraryError ''address already in use''),
        \<lparr>trace = [CreateContext 56830 (Inl (LibraryError ''address already in use''))],
         next_ctx = 0\<rparr>)
   \<and> execute_command env_checks_port lwm2m_client_port70000 (JStr ''reboot'') world0
     = (Inl (LibraryError ''Port out of range 0-65535''),
        \<lparr>trace = [CreateContext 56830 (Inr 0)], next_ctx = 1\<rparr>)"
proof -
  have r: "ctx_outcome env_bind_fails (now world0) (coap_port lwm2m_client0)
       = Some (LibraryError ''address already in use'')"
    by (simp add: env_bind_fails_def)
  have g': "granted env_checks_port lwm2m_client_port70000 world0"
    by (simp add: granted_def env_checks_port_def)
  have a: "execute_command env_bind_fails lwm2m_client0 (JStr ''reboot'') world0
     = (Inl (LibraryError ''address already in use''),
        \<lparr>trace = [CreateContext 56830 (Inl (LibraryError ''address already in use''))],
         next_ctx = 0\<rparr>)"
    by (simp add: execute_command_refused [OF r]) (simp add: world0_def lwm2m_client0_def)
  have b: "execute_command env_checks_port lwm2m_client_port70000 (JStr ''reboot'') world0
     = (Inl (LibraryError ''Port out of range 0-65535''),
        \<lparr>trace = [CreateContext 56830 (Inr 0)], next_ctx = 1\<rparr>)"
    by (simp add: execute_command_granted [OF g'] command_path_def coap_uri_client_port70000
        env_checks_port_refuses)
      (simp add: world0_def lwm2m_client_port70000_def lwm2m_client0_def)
  from a b show ?thesis by blast
qed

section \<open>Registration\<close>

text \<open>
  C4. \<^verbatim>\<open>register({})\<close> creates one context on the configured port. When the context is
  created and the library builds the message, the method sends on that context exactly
  one request: a POST to the URI of \<^verbatim>\<open>/rd\<close> whose query is the three strings
  \<^verbatim>\<open>ep=<epname>\<close>, \<^verbatim>\<open>lt=86400\<close>, \<^verbatim>\<open>b=U\<close> in that order, with no \<^verbatim>\<open>lwm2m\<close> item, and whose
  payload is empty. When creating the context raises, or the constructor of the message
  raises, the method raises that exception and sends nothing.
\<close>

theorem register_empty_options:
  "creations (since w (snd (register E self (JObj []) w)))
       = [(coap_port self,
           case ctx_outcome E (now w) (coap_port self) of
             None \<Rightarrow> Inr (next_ctx w) | Some e \<Rightarrow> Inl e)]
   \<and> (granted E self w
        \<and> accepted E
             \<lparr>code = POST, uri = coap_uri self ''/rd'',
              uri_query = [''ep='' @ epname self, ''lt=86400'', ''b=U''], payload = []\<rparr>
        \<longrightarrow>
        requests (since w (snd (register E self (JObj []) w)))
          = [(next_ctx w,
              \<lparr>code = POST, uri = coap_uri self ''/rd'',
               uri_query = [''ep='' @ epname self, ''lt=86400'', ''b=U''],
               payload = []\<rparr>)])
   \<and> (\<forall>e. ctx_outcome E (now w) (coap_port self) = Some e \<longrightarrow>
        requests (since w (snd (register E self (JObj []) w))) = []
        \<and> fst (register E self (JObj []) w) = Inl e)
   \<and> (\<forall>e. granted E self w
        \<and> message_outcome E
             \<lparr>code = POST, uri = coap_uri self ''/rd'',
              uri_query = [''ep='' @ epname self, ''lt=86400'', ''b=U''], payload = []\<rparr>
            = Some e
        \<longrightarrow>
        requests (since w (snd (register E self (JObj []) w))) = []
        \<and> fst (register E self (JObj []) w) = Inl e)"
proof (intro conjI impI allI)
  show "creations (since w (snd (register E self (JObj []) w)))
       = [(coap_port self,
           case ctx_outcome E (now w) (coap_port self) of
             None \<Rightarrow> Inr (next_ctx w) | Some e \<Rightarrow> Inl e)]"
  proof (cases "granted E self w")
    case True
    then have "ctx_outcome E (now w) (coap_port self) = None"
      by (simp add: granted_def)
    with True show ?thesis
      by (simp add: register_granted register_query_object since_append_make
          split: option.splits)
  next
    case False
    then obtain e where "ctx_outcome E (now w) (coap_port self) = Some e"
      by (auto simp: not_granted_iff)
    then show ?thesis
      by (simp add: register_refused since_append)
  qed
next
  assume "granted E self w
    \<and> accepted E
         \<lparr>code = POST, uri = coap_uri self ''/rd'',
          uri_query = [''ep='' @ epname self, ''lt=86400'', ''b=U''], payload = []\<rparr>"
  then show "requests (since w (snd (register E self (JObj []) w)))
          = [(next_ctx w,
              \<lparr>code = POST, uri = coap_uri self ''/rd'',
               uri_query = [''ep='' @ epname self, ''lt=86400'', ''b=U''],
               payload = []\<rparr>)]"
    by (simp add: register_granted register_query_object since_append_make accepted_def)
next
  fix e assume r: "ctx_outcome E (now w) (coap_port self) = Some e"
  show "requests (since w (snd (register E self (JObj []) w))) = []"
    by (simp add: register_refused [OF r] since_append)
  show "fst (register E self (JObj []) w) = Inl e"
    by (simp add: register_refused [OF r])
next
  fix e assume h: "granted E self w
    \<and> message_outcome E
         \<lparr>code = POST, uri = coap_uri self ''/rd'',
          uri_query = [''ep='' @ epname self, ''lt=86400'', ''b=U''], payload = []\<rparr>
        = Some e"
  then show "requests (since w (snd (register E self (JObj []) w))) = []"
    by (simp add: register_granted register_query_object since_append_make)
  from h show "fst (register E self (JObj []) w) = Inl e"
    by (simp add: register_granted register_query_object)
qed

theorem register_empty_options_witness:
  "granted env_up lwm2m_client0 world0
   \<and> requests (since world0 (snd (register env_up lwm2m_client0 (JObj []) world0)))
       = [(0, \<lparr>code = POST, uri = ''coap://127.0.0.1:5683/rd'',
               uri_query = [''ep=raspi5'', ''lt=86400'', ''b=U''], payload = []\<rparr>)]
   \<and> ctx_outcome env_bind_fails (now world0) (coap_port lwm2m_client0)
       = Some (LibraryError ''address already in use'')
   \<and> fst (register env_bind_fails lwm2m_client0 (JObj []) world0)
       = Inl (LibraryError ''address already in use'')
   \<and> granted env_checks_port lwm2m_client_port70000 world0
   \<and> fst (register env_checks_port lwm2m_client_port70000 (JObj []) world0)
       = Inl (LibraryError ''Port out of range 0-65535'')"
proof -
  have g: "granted env_up lwm2m_client0 world0"
    by (simp add: granted_def env_up_def)
  have acc: "\<And>m. accepted env_up m"
    by (simp add: accepted_def env_up_def)
  have r: "ctx_outcome env_bind_fails (now world0) (coap_port lwm2m_client0)
       = Some (LibraryError ''address already in use'')"
    by (simp add: env_bind_fails_def)
  have g': "granted env_checks_port lwm2m_client_port70000 world0"
    by (simp add: granted_def env_checks_port_def)
  have m': "message_outcome env_checks_port
       \<lparr>code = POST, uri = coap_uri lwm2m_client_port70000 ''/rd'',
        uri_query = [''ep='' @ epname lwm2m_client_port70000, ''lt=86400'', ''b=U''],
        payload = []\<rparr> = Some (LibraryError ''Port out of range 0-65535'')"
    by (simp add: coap_uri_client_port70000 env_checks_port_refuses)
  have n: "next_ctx world0 = 0" "epname lwm2m_client0 = ''raspi5''"
    by (simp_all add: world0_def lwm2m_client0_def)
  from register_empty_options [of world0 env_up lwm2m_client0] g acc
  have a: "requests (since world0 (snd (register env_up lwm2m_client0 (JObj []) world0)))
       = [(0, \<lparr>code = POST, uri = ''coap://127.0.0.1:5683/rd'',
               uri_query = [''ep=raspi5'', ''lt=86400'', ''b=U''], payload = []\<rparr>)]"
    by (simp add: coap_uri_client0 n)
  from register_empty_options [of world0 env_bind_fails lwm2m_client0] r
  have b: "fst (register env_bind_fails lwm2m_client0 (JObj []) world0)
       = Inl (LibraryError ''address already in use'')"
    by blast
  from register_empty_options [of world0 env_checks_port lwm2m_client_port70000] g' m'
  have c: "fst (register env_checks_port lwm2m_client_port70000 (JObj []) world0)
       = Inl (LibraryError ''Port out of range 0-65535'')"
    by blast
  from g a r b g' c show ?thesis by blast
qed

text \<open>
  The claim has \<^verbatim>\<open>register({})\<close> issue its POST. With a port that cannot be bound, and
  with a server port on which the constructor of the message raises, nothing is sent.
\<close>

theorem registration_not_posted_counterexample:
  "register env_bind_fails lwm2m_client0 (JObj []) world0
     = (Inl (LibraryError ''address already in use''),
        \<lparr>trace = [CreateContext 56830 (Inl (LibraryError ''address already in use''))],
         next_ctx = 0\<rparr>)
   \<and> register env_checks_port lwm2m_client_port70000 (JObj []) world0
     = (Inl (LibraryError ''Port out of range 0-65535''),
        \<lparr>trace = [CreateContext 56830 (Inr 0)], next_ctx = 1\<rparr>)"
proof -
  have r: "ctx_outcome env_bind_fails (now world0) (coap_port lwm2m_client0)
       = Some (LibraryError ''address already in use'')"
    by (simp add: env_bind_fails_def)
  have g': "granted env_checks_port lwm2m_client_port70000 world0"
    by (simp add: granted_def env_checks_port_def)
  have a: "register env_bind_fails lwm2m_client0 (JObj []) world0
     = (Inl (LibraryError ''address already in use''),
        \<lparr>trace = [CreateContext 56830 (Inl (LibraryError ''address already in use''))],
         next_ctx = 0\<rparr>)"
    by (simp add: register_refused [OF r]) (simp add: world0_def lwm2m_client0_def)
  have b: "register env_checks_port lwm2m_client_port70000 (JObj []) world0
     = (Inl (LibraryError ''Port out of range 0-65535''),
        \<lparr>trace = [CreateContext 56830 (Inr 0)], next_ctx = 1\<rparr>)"
    by (simp add: register_granted [OF g'] register_query_object coap_uri_client_port70000
        env_checks_port_refuses)
      (simp add: world0_def lwm2m_client_port70000_def lwm2m_client0_def)
  from a b show ?thesis by blast
qed




section \<open>The command handler\<close>

lemma cmd_handler_no_parse:
  "cmd_handler E self (Inl e) w = (JsonResponse 500 [(''error'', FErr e)], w)"
  by (simp add: cmd_handler_def io_bind_lift_Inl)

lemma cmd_handler_not_object:
  assumes "\<forall>items. data \<noteq> JObj items"
  shows "cmd_handler E self (Inr data) w = (JsonResponse 500 [(''error'', FErr AttributeError)], w)"
proof -
  from assms have "py_get data ''command'' = Inl AttributeError"
    by (cases data) (simp_all add: py_get_def)
  then show ?thesis
    by (simp add: cmd_handler_def io_bind_lift_Inr io_bind_lift_Inl)
qed

lemma cmd_handler_falsy:
  assumes "\<not> truthy (case map_of items ''command'' of None \<Rightarrow> JNull | Some v \<Rightarrow> v)"
  shows "cmd_handler E self (Inr (JObj items)) w =
     (JsonResponse 400 [(''error'', FStr ''Missing command parameter'')], w)"
proof -
  have "py_get (JObj items) ''command''
      = Inr (case map_of items ''command'' of None \<Rightarrow> JNull | Some v \<Rightarrow> v)"
    by (simp add: py_get_def split: option.splits)
  with assms show ?thesis
    by (simp add: cmd_handler_def io_bind_lift_Inr io_return_def)
qed

text \<open>
  C9. For a request whose body parses to a JSON object with no \<^verbatim>\<open>command\<close> item,
  \<^verbatim>\<open>cmd_handler\<close> answers 400 with the error \<^verbatim>\<open>Missing command parameter\<close> and makes no
  library call: no context is created, no command is looked up, nothing is sent. A body
  that does not parse, or parses to something that is no object, is answered 500 by the
  handler's \<^verbatim>\<open>except\<close> branch, again without any library call.
\<close>

theorem cmd_handler_missing_command:
  "(map_of items ''command'' = None \<longrightarrow>
      cmd_handler E self (Inr (JObj items)) w =
        (JsonResponse 400 [(''error'', FStr ''Missing command parameter'')], w))
   \<and> cmd_handler E self (Inl e) w = (JsonResponse 500 [(''error'', FErr e)], w)
   \<and> ((\<forall>items. data \<noteq> JObj items) \<longrightarrow>
        cmd_handler E self (Inr data) w =
          (JsonResponse 500 [(''error'', FErr AttributeError)], w))"
proof (intro conjI impI)
  assume "map_of items ''command'' = None"
  then have "\<not> truthy (case map_of items ''command'' of None \<Rightarrow> JNull | Some v \<Rightarrow> v)"
    by simp
  then show "cmd_handler E self (Inr (JObj items)) w =
        (JsonResponse 400 [(''error'', FStr ''Missing command parameter'')], w)"
    by (rule cmd_handler_falsy)
next
  show "cmd_handler E self (Inl e) w = (JsonResponse 500 [(''error'', FErr e)], w)"
    by (rule cmd_handler_no_parse)
next
  assume "\<forall>items. data \<noteq> JObj items"
  then show "cmd_handler E self (Inr data) w =
          (JsonResponse 500 [(''error'', FErr AttributeError)], w)"
    by (rule cmd_handler_not_object)
qed

theorem cmd_handler_missing_command_witness:
  "map_of [(''cmd'', JStr ''reboot'')] ''command'' = None
   \<and> cmd_handler env_up lwm2m_client0 (Inr (JObj [(''cmd'', JStr ''reboot'')])) world0 =
       (JsonResponse 400 [(''error'', FStr ''Missing command parameter'')], world0)
   \<and> (\<forall>items. JList [] \<noteq> JObj items)
   \<and> cmd_handler env_up lwm2m_client0 (Inr (JList [])) world0 =
       (JsonResponse 500 [(''error'', FErr AttributeError)], world0)"
proof -
  have m: "map_of [(''cmd'', JStr ''reboot'')] ''command'' = None"
    by simp
  have n: "\<forall>items. JList [] \<noteq> JObj items"
    by simp
  from cmd_handler_missing_command [of "[(''cmd'', JStr ''reboot'')]" env_up lwm2m_client0 world0] m
  have a: "cmd_handler env_up lwm2m_client0 (Inr (JObj [(''cmd'', JStr ''reboot'')])) world0 =
       (JsonResponse 400 [(''error'', FStr ''Missing command parameter'')], world0)"
    by blast
  from cmd_handler_missing_command [of _ env_up lwm2m_client0 world0 _ "JList []"] n
  have b: "cmd_handler env_up lwm2m_client0 (Inr (JList [])) world0 =
       (JsonResponse 500 [(''error'', FErr AttributeError)], world0)"
    by blast
  from m a n b show ?thesis by blast
qed

text \<open>
  The claim has every request without a command field answered with the client error. A
  body that is not JSON, and the JSON body \<^verbatim>\<open>[]\<close>, have no command field and are
  answered 500.
\<close>

theorem body_without_object_counterexample:
  "cmd_handler env_up lwm2m_client0 (Inl (LibraryError ''JSONDecodeError'')) world0 =
     (JsonResponse 500 [(''error'', FErr (LibraryError ''JSONDecodeError''))], world0)
   \<and> cmd_handler env_up lwm2m_client0 (Inr (JList [])) world0 =
     (JsonResponse 500 [(''error'', FErr AttributeError)], world0)"
  by (simp add: cmd_handler_no_parse cmd_handler_not_object)

section \<open>Decoding payloads\<close>

subsection \<open>The bytes of a decoded character\<close>
















subsection \<open>The decoder, branch by branch\<close>






subsection \<open>Nothing is put in the place of a dropped byte\<close>








section \<open>One context for each call\<close>

lemma run_call_granted:
  assumes g: "granted E self w"
  shows "\<exists>es. run_call E self c w =
       \<lparr>trace = trace w @ CreateContext (coap_port self) (Inr (next_ctx w)) # es,
        next_ctx = Suc (next_ctx w)\<rparr>
     \<and> list_all (request_on (next_ctx w)) es"
proof (cases c)
  case (Register params)
  then show ?thesis
    by (cases "register_query self params")
      (simp_all add: register_granted [OF g] split: option.splits)
next
  case (ExecuteCommand command)
  then show ?thesis
    by (cases "command_path command")
      (simp_all add: execute_command_granted [OF g] split: option.splits)
next
  case GetDeviceInfo
  then show ?thesis
    by (simp add: get_device_info_granted [OF g] request_on_sent_from)
qed

lemma run_call_refused:
  assumes r: "ctx_outcome E (now w) (coap_port self) = Some e"
  shows "run_call E self c w = w\<lparr>trace := trace w @ [CreateContext (coap_port self) (Inl e)]\<rparr>"
  by (cases c)
    (simp_all add: register_refused [OF r] execute_command_refused [OF r]
      get_device_info_refused [OF r])

lemma next_ctx_run_call_granted:
  "granted E self w \<Longrightarrow> next_ctx (run_call E self c w) = Suc (next_ctx w)"
  using run_call_granted [of E self w c] by auto

lemma event_ctx_below_mono: "event_ctx_below n ev \<Longrightarrow> n \<le> m \<Longrightarrow> event_ctx_below m ev"
  by (cases "(n, ev)" rule: event_ctx_below.cases) simp_all

lemma request_on_below: "request_on c ev \<Longrightarrow> event_ctx_below (Suc c) ev"
  by (cases ev) simp_all

lemma wf_world_run_call:
  assumes wf: "wf_world w"
  shows "wf_world (run_call E self c w)"
proof (cases "granted E self w")
  case True
  from run_call_granted [OF True, of c] obtain es where
    w': "run_call E self c w =
       \<lparr>trace = trace w @ CreateContext (coap_port self) (Inr (next_ctx w)) # es,
        next_ctx = Suc (next_ctx w)\<rparr>"
    and es: "list_all (request_on (next_ctx w)) es"
    by blast
  from wf have "list_all (event_ctx_below (Suc (next_ctx w))) (trace w)"
    by (auto simp: wf_world_def list_all_iff intro: event_ctx_below_mono)
  moreover from es have "list_all (event_ctx_below (Suc (next_ctx w))) es"
    by (auto simp: list_all_iff intro: request_on_below)
  ultimately show ?thesis
    by (simp add: w' wf_world_def)
next
  case False
  then obtain e where "ctx_outcome E (now w) (coap_port self) = Some e"
    by (auto simp: not_granted_iff)
  with wf show ?thesis
    by (simp add: run_call_refused wf_world_def)
qed

lemma wf_world0: "wf_world world0"
  by (simp add: wf_world_def world0_def)

lemma wf_world_run_calls: "wf_world w \<Longrightarrow> wf_world (run_calls E self cs w)"
  by (induction cs arbitrary: w) (simp_all add: wf_world_run_call)

text \<open>Every world reached from the initial one by calls of the three methods is well formed.\<close>

lemma wf_world_reachable: "wf_world (run_calls E self cs world0)"
  by (rule wf_world_run_calls [OF wf_world0])

lemma below_not_in_requests:
  "list_all (event_ctx_below n) es \<Longrightarrow> n \<notin> set (map fst (requests es))"
  by (induction es rule: requests.induct) auto

lemma below_not_in_creations:
  "list_all (event_ctx_below n) es \<Longrightarrow> Inr n \<notin> set (map snd (creations es))"
  by (induction es rule: creations.induct) auto

text \<open>
  C10. Every call of \<^verbatim>\<open>register\<close>, \<^verbatim>\<open>execute_command\<close> or \<^verbatim>\<open>get_device_info\<close> begins by
  asking the library for a context on the configured port, and asks for no other: every
  other library call it makes is a request on the context then given out. When the
  creation succeeds, that context is the call's own: in a well-formed world it is fresh,
  no earlier request was sent on it and no earlier creation returned it, and the call
  leaves the world well formed, so the same holds for the next call; the reads of one
  \<^verbatim>\<open>get_device_info\<close> all go on it, seven of them when all seven messages are built.
  When the creation raises, no context is created and the call ends there.
\<close>

theorem context_per_call:
  "take 1 (since w (run_call E self c w))
     = [CreateContext (coap_port self) (fst (get_context E self w))]
   \<and> list_all (request_on (next_ctx w)) (drop 1 (since w (run_call E self c w)))
   \<and> (granted E self w \<longrightarrow>
        fst (get_context E self w) = Inr (next_ctx w)
        \<and> next_ctx (run_call E self c w) = Suc (next_ctx w))
   \<and> (granted E self w \<and> list_all (\<lambda>path. accepted E (get_request self path)) read_paths
        \<longrightarrow>
        map fst (requests (since w (run_call E self GetDeviceInfo w)))
          = replicate 7 (next_ctx w))
   \<and> (\<forall>e. ctx_outcome E (now w) (coap_port self) = Some e \<longrightarrow>
        run_call E self c w
          = w\<lparr>trace := trace w @ [CreateContext (coap_port self) (Inl e)]\<rparr>)
   \<and> (wf_world w \<longrightarrow>
        wf_world (run_call E self c w)
        \<and> next_ctx w \<notin> set (map fst (requests (trace w)))
        \<and> Inr (next_ctx w) \<notin> set (map snd (creations (trace w))))"
proof (intro conjI impI allI)
  show "take 1 (since w (run_call E self c w))
     = [CreateContext (coap_port self) (fst (get_context E self w))]"
  proof (cases "granted E self w")
    case True
    from run_call_granted [OF True, of c] obtain es where
      "run_call E self c w =
         \<lparr>trace = trace w @ CreateContext (coap_port self) (Inr (next_ctx w)) # es,
          next_ctx = Suc (next_ctx w)\<rparr>"
      by blast
    with True show ?thesis
      by (simp add: since_append_make get_context_granted)
  next
    case False
    then obtain e where "ctx_outcome E (now w) (coap_port self) = Some e"
      by (auto simp: not_granted_iff)
    then show ?thesis
      by (simp add: run_call_refused since_append get_context_refused)
  qed
next
  show "list_all (request_on (next_ctx w)) (drop 1 (since w (run_call E self c w)))"
  proof (cases "granted E self w")
    case True
    from run_call_granted [OF True, of c] obtain es where
      "run_call E self c w =
         \<lparr>trace = trace w @ CreateContext (coap_port self) (Inr (next_ctx w)) # es,
          next_ctx = Suc (next_ctx w)\<rparr>"
      and "list_all (request_on (next_ctx w)) es"
      by blast
    then show ?thesis
      by (simp add: since_append_make)
  next
    case False
    then obtain e where "ctx_outcome E (now w) (coap_port self) = Some e"
      by (auto simp: not_granted_iff)
    then show ?thesis
      by (simp add: run_call_refused since_append)
  qed
next
  assume g: "granted E self w"
  show "fst (get_context E self w) = Inr (next_ctx w)"
    by (simp add: get_context_granted [OF g])
  show "next_ctx (run_call E self c w) = Suc (next_ctx w)"
    using g by (rule next_ctx_run_call_granted)
next
  assume h: "granted E self w
    \<and> list_all (\<lambda>path. accepted E (get_request self path)) read_paths"
  then have "filter (accepted E) (map (get_request self) read_paths)
      = map (get_request self) read_paths"
    by (simp add: list_all_iff)
  with h show "map fst (requests (since w (run_call E self GetDeviceInfo w)))
      = replicate 7 (next_ctx w)"
    by (simp add: requests_get_device_info_granted read_paths_def eval_nat_numeral)
next
  fix e assume "ctx_outcome E (now w) (coap_port self) = Some e"
  then show "run_call E self c w
      = w\<lparr>trace := trace w @ [CreateContext (coap_port self) (Inl e)]\<rparr>"
    by (rule run_call_refused)
next
  assume wf: "wf_world w"
  show "wf_world (run_call E self c w)"
    using wf by (rule wf_world_run_call)
  from wf show "next_ctx w \<notin> set (map fst (requests (trace w)))"
    unfolding wf_world_def by (rule below_not_in_requests)
  from wf show "Inr (next_ctx w) \<notin> set (map snd (creations (trace w)))"
    unfolding wf_world_def by (rule below_not_in_creations)
qed

theorem context_per_call_witness:
  "wf_world world0
   \<and> granted env_up lwm2m_client0 world0
   \<and> list_all (\<lambda>path. accepted env_up (get_request lwm2m_client0 path)) read_paths
   \<and> take 1 (since world0 (run_call env_up lwm2m_client0 GetDeviceInfo world0))
       = [CreateContext 56830 (Inr 0)]
   \<and> map fst (requests (since world0 (run_call env_up lwm2m_client0 GetDeviceInfo world0)))
       = replicate 7 0
   \<and> wf_world (run_call env_up lwm2m_client0 GetDeviceInfo world0)
   \<and> map fst (requests
        (since (run_call env_up lwm2m_client0 GetDeviceInfo world0)
           (run_call env_up lwm2m_client0 GetDeviceInfo
              (run_call env_up lwm2m_client0 GetDeviceInfo world0))))
       = replicate 7 1
   \<and> ctx_outcome env_bind_fails (now world0) (coap_port lwm2m_client0)
       = Some (LibraryError ''address already in use'')
   \<and> run_call env_bind_fails lwm2m_client0 (Register (JObj [])) world0
       = world0\<lparr>trace := [CreateContext 56830 (Inl (LibraryError ''address already in use''))]\<rparr>"
proof -
  let ?w1 = "run_call env_up lwm2m_client0 GetDeviceInfo world0"
  have g: "\<And>w. granted env_up lwm2m_client0 w"
    by (simp add: granted_def env_up_def)
  have acc: "list_all (\<lambda>path. accepted env_up (get_request lwm2m_client0 path)) read_paths"
    by (simp add: accepted_def env_up_def list_all_iff)
  have wf0: "wf_world world0"
    by (rule wf_world0)
  have n0: "next_ctx world0 = 0"
    by (simp add: world0_def)
  have c0: "fst (get_context env_up lwm2m_client0 world0) = Inr 0"
    by (simp add: get_context_granted [OF g] n0)
  have p: "coap_port lwm2m_client0 = 56830"
    by (simp add: lwm2m_client0_def)
  have r: "ctx_outcome env_bind_fails (now world0) (coap_port lwm2m_client0)
       = Some (LibraryError ''address already in use'')"
    by (simp add: env_bind_fails_def)
  from context_per_call [of world0 env_up lwm2m_client0 GetDeviceInfo] wf0 g acc
  have a: "take 1 (since world0 ?w1) = [CreateContext 56830 (Inr 0)]"
    and b: "map fst (requests (since world0 ?w1)) = replicate 7 0"
    and wf1: "wf_world ?w1"
    by (simp_all add: c0 p n0)
  have n1: "next_ctx ?w1 = 1"
    using next_ctx_run_call_granted [OF g, of GetDeviceInfo world0] n0 by simp
  from context_per_call [of ?w1 env_up lwm2m_client0 GetDeviceInfo] g acc
  have c: "map fst (requests (since ?w1 (run_call env_up lwm2m_client0 GetDeviceInfo ?w1)))
      = replicate 7 1"
    by (simp add: n1 del: run_call.simps)
  from context_per_call [of world0 env_bind_fails lwm2m_client0 "Register (JObj [])"] r
  have d: "run_call env_bind_fails lwm2m_client0 (Register (JObj [])) world0
       = world0\<lparr>trace := [CreateContext 56830 (Inl (LibraryError ''address already in use''))]\<rparr>"
    by (simp add: p world0_def del: run_call.simps)
  from wf0 g acc a b wf1 c r d show ?thesis by blast
qed

text \<open>
  The claim has every call create a context. With a port that cannot be bound the call
  creates none: its only library call is the creation that raised.
\<close>

theorem no_context_created_counterexample:
  "run_call env_bind_fails lwm2m_client0 GetDeviceInfo world0
     = \<lparr>trace = [CreateContext 56830 (Inl (LibraryError ''address already in use''))],
        next_ctx = 0\<rparr>
   \<and> creations (trace (run_call env_bind_fails lwm2m_client0 GetDeviceInfo world0))
     = [(56830, Inl (LibraryError ''address already in use''))]"
proof -
  have r: "ctx_outcome env_bind_fails (now world0) (coap_port lwm2m_client0)
       = Some (LibraryError ''address already in use'')"
    by (simp add: env_bind_fails_def)
  have "run_call env_bind_fails lwm2m_client0 GetDeviceInfo world0
     = \<lparr>trace = [CreateContext 56830 (Inl (LibraryError ''address already in use''))],
        next_ctx = 0\<rparr>"
    by (simp only: run_call_refused [OF r]) (simp add: world0_def lwm2m_client0_def)
  then show ?thesis by simp
qed

end
